theory Spec2Isabelle
  imports Complex_Main "HOL-Library.Multiset"
begin

section \<open>Atomic structures\<close>

text \<open>
  The Python source (\<^verbatim>\<open>src/slab_builder.py\<close>) works on the \<^verbatim>\<open>Atoms\<close> objects of
  an external atomistic library. Floating-point numbers are idealised as real numbers
  throughout: rounding is not modelled.

  A 3-vector is a triple, a 3x3 matrix is the triple of its rows, as \<^verbatim>\<open>cell[i, j]\<close>
  reads row \<open>i\<close>, column \<open>j\<close>.
\<close>

type_synonym vec3 = "real \<times> real \<times> real"
type_synonym mat3 = "vec3 \<times> vec3 \<times> vec3"

text \<open>
  Modelled from the spec: the \<^verbatim>\<open>Atoms\<close> type of the external library is not in the
  repository. The spec's data model gives it as an ordered sequence of atoms, each with a
  species label and a Cartesian position, a 3x3 lattice-vector matrix and one
  periodic-boundary flag per axis.
\<close>

record atoms =
  symbols :: "string list"
  positions :: "vec3 list"
  cell :: mat3
  pbc :: "bool \<times> bool \<times> bool"

datatype error = IndexError | ValueError | LinAlgError | LibraryError string

text \<open>\<^verbatim>\<open>v[d]\<close> and \<^verbatim>\<open>v[d] = x\<close> on a 3-vector, for \<open>d\<close> in \<open>range(3)\<close>.\<close>

fun coord :: "vec3 \<Rightarrow> nat \<Rightarrow> real" where
  "coord (x, y, z) d = (if d = 0 then x else if d = 1 then y else z)"

fun set_coord :: "vec3 \<Rightarrow> nat \<Rightarrow> real \<Rightarrow> vec3" where
  "set_coord (x, y, z) d v =
     (if d = 0 then (v, y, z) else if d = 1 then (x, v, z) else (x, y, v))"

text \<open>\<^verbatim>\<open>cell[i, j]\<close> and \<^verbatim>\<open>cell[i, j] = x\<close> on a 3x3 matrix.\<close>

fun row :: "mat3 \<Rightarrow> nat \<Rightarrow> vec3" where
  "row (r0, r1, r2) i = (if i = 0 then r0 else if i = 1 then r1 else r2)"

fun set_row :: "mat3 \<Rightarrow> nat \<Rightarrow> vec3 \<Rightarrow> mat3" where
  "set_row (r0, r1, r2) i v =
     (if i = 0 then (v, r1, r2) else if i = 1 then (r0, v, r2) else (r0, r1, v))"

definition entry :: "mat3 \<Rightarrow> nat \<Rightarrow> nat \<Rightarrow> real" where
  "entry m i j = coord (row m i) j"

definition set_entry :: "mat3 \<Rightarrow> nat \<Rightarrow> nat \<Rightarrow> real \<Rightarrow> mat3" where
  "set_entry m i j v = set_row m i (set_coord (row m i) j v)"

text \<open>
  Modelled from the spec: the accessors of the external \<^verbatim>\<open>Atoms\<close> type. \<^verbatim>\<open>get_cell\<close>
  and \<^verbatim>\<open>get_positions\<close> return copies; \<^verbatim>\<open>set_cell\<close> replaces the lattice matrix and
  leaves the Cartesian positions as they are; \<^verbatim>\<open>set_positions\<close> replaces the positions
  and refuses an array of another length.
\<close>

definition get_cell :: "atoms \<Rightarrow> mat3" where
  "get_cell a = cell a"

definition set_cell :: "atoms \<Rightarrow> mat3 \<Rightarrow> atoms" where
  "set_cell a c = a\<lparr>cell := c\<rparr>"

definition get_positions :: "atoms \<Rightarrow> vec3 list" where
  "get_positions a = positions a"

definition set_positions :: "atoms \<Rightarrow> vec3 list \<Rightarrow> error + atoms" where
  "set_positions a ps =
     (if length ps = length (positions a) then Inr (a\<lparr>positions := ps\<rparr>)
      else Inl ValueError)"

section \<open>orthogonalize\_111\<close>

text \<open>
  The body of the double loop of \<^verbatim>\<open>orthogonalize_111\<close>:
  \<^verbatim>\<open>if positions[i_pos, i_dir] >= cell[i_dir, i_dir]-0.05:
      positions[i_pos, i_dir] -= cell[i_dir, i_dir]\<close>
  It is only run with \<open>i_pos < len(positions)\<close> and \<open>i_dir < 3\<close>.
\<close>

definition wrap_step :: "mat3 \<Rightarrow> nat \<Rightarrow> nat \<Rightarrow> vec3 list \<Rightarrow> vec3 list" where
  "wrap_step c i_pos i_dir ps =
     (if coord (ps ! i_pos) i_dir \<ge> entry c i_dir i_dir - 5 / 100
      then ps[i_pos := set_coord (ps ! i_pos) i_dir
                         (coord (ps ! i_pos) i_dir - entry c i_dir i_dir)]
      else ps)"

text \<open>
  \<^verbatim>\<open>for i_pos in range(len(positions)): for i_dir in range(3): ...\<close>
  as folds over the two ranges.
\<close>

definition wrap_loop :: "mat3 \<Rightarrow> vec3 list \<Rightarrow> vec3 list" where
  "wrap_loop c ps =
     fold (\<lambda>i_pos acc. fold (\<lambda>i_dir acc'. wrap_step c i_pos i_dir acc') [0..<3] acc)
       [0..<length ps] ps"

definition orthogonalize_111 :: "atoms \<Rightarrow> error + atoms" where
  "orthogonalize_111 slab =
     (let c = set_entry (get_cell slab) 1 0 0;
          slab1 = set_cell slab c;
          ps = wrap_loop c (get_positions slab1)
      in set_positions slab1 ps)"

text \<open>What the loop does to one coordinate, and to one atom.\<close>

definition wrap_coord :: "real \<Rightarrow> real \<Rightarrow> real" where
  "wrap_coord len x = (if x \<ge> len - 5 / 100 then x - len else x)"

definition wrap_atom :: "mat3 \<Rightarrow> vec3 \<Rightarrow> vec3" where
  "wrap_atom c p =
     (wrap_coord (entry c 0 0) (coord p 0),
      wrap_coord (entry c 1 1) (coord p 1),
      wrap_coord (entry c 2 2) (coord p 2))"

section \<open>Fractional coordinates and the structure constructor\<close>

text \<open>
  Modelled from the spec: fractional (scaled) coordinates of the external \<^verbatim>\<open>Atoms\<close>
  type. The spec gives a fractional coordinate as a 3-tuple in \<open>[0,1)\<close> per axis,
  relative to the current lattice matrix, which it requires to be invertible, and not
  stored on its own. So the Cartesian position of a fractional coordinate \<open>f\<close> is the
  row vector \<open>f\<close> times the lattice matrix; \<^verbatim>\<open>get_scaled_positions\<close> solves for \<open>f\<close>
  and reduces it modulo 1 on the periodic axes; \<^verbatim>\<open>set_scaled_positions\<close> stores the
  Cartesian positions. A singular lattice matrix is an error of the linear solve.
\<close>

fun vec_mat :: "vec3 \<Rightarrow> mat3 \<Rightarrow> vec3" where
  "vec_mat (f0, f1, f2) ((a, b, c), (d, e, f), (g, h, k)) =
     (f0 * a + f1 * d + f2 * g, f0 * b + f1 * e + f2 * h, f0 * c + f1 * f + f2 * k)"

fun det3 :: "mat3 \<Rightarrow> real" where
  "det3 ((a, b, c), (d, e, f), (g, h, k)) =
     a * (e * k - f * h) - b * (d * k - f * g) + c * (d * h - e * g)"

fun inv3 :: "mat3 \<Rightarrow> mat3" where
  "inv3 ((a, b, c), (d, e, f), (g, h, k)) =
     (let D = det3 ((a, b, c), (d, e, f), (g, h, k)) in
      (((e * k - f * h) / D, (c * h - b * k) / D, (b * f - c * e) / D),
       ((f * g - d * k) / D, (a * k - c * g) / D, (c * d - a * f) / D),
       ((d * h - e * g) / D, (b * g - a * h) / D, (a * e - b * d) / D)))"

fun wrap_pbc :: "bool \<times> bool \<times> bool \<Rightarrow> vec3 \<Rightarrow> vec3" where
  "wrap_pbc (px, py, pz) (x, y, z) =
     (if px then frac x else x, if py then frac y else y, if pz then frac z else z)"

definition get_scaled_positions :: "atoms \<Rightarrow> error + vec3 list" where
  "get_scaled_positions a =
     (if det3 (cell a) = 0 then Inl LinAlgError
      else Inr (map (\<lambda>p. wrap_pbc (pbc a) (vec_mat p (inv3 (cell a)))) (positions a)))"

definition set_scaled_positions :: "atoms \<Rightarrow> vec3 list \<Rightarrow> error + atoms" where
  "set_scaled_positions a scaled = set_positions a (map (\<lambda>f. vec_mat f (cell a)) scaled)"

text \<open>
  A position lies inside the cell along every periodic axis when reducing its fractional
  coordinates modulo 1 there leaves them as they are.
\<close>

definition inside_cell :: "atoms \<Rightarrow> vec3 \<Rightarrow> bool" where
  "inside_cell a p =
     (wrap_pbc (pbc a) (vec_mat p (inv3 (cell a))) = vec_mat p (inv3 (cell a)))"

text \<open>\<^verbatim>\<open>xs[i] = v\<close> on an array: an index past the end raises.\<close>

definition setitem :: "'a list \<Rightarrow> nat \<Rightarrow> 'a \<Rightarrow> error + 'a list" where
  "setitem xs i v = (if i < length xs then Inr (xs[i := v]) else Inl IndexError)"

text \<open>
  \<^verbatim>\<open>atoms[i]\<close> for an integer \<open>i\<close>: a view of one atom, of which the source reads the
  Cartesian \<^verbatim>\<open>x\<close> and \<^verbatim>\<open>y\<close>; the view is modelled by the atom's position. A negative
  index counts from the end, and an index outside \<open>-n \<dots> n-1\<close> raises.
\<close>

definition getitem :: "atoms \<Rightarrow> int \<Rightarrow> error + vec3" where
  "getitem a i =
     (let natoms = int (length (positions a)) in
      if i < - natoms \<or> i \<ge> natoms then Inl IndexError
      else Inr (positions a ! nat (if i < 0 then i + natoms else i)))"

definition atom_x :: "vec3 \<Rightarrow> real" where
  "atom_x p = coord p 0"

definition atom_y :: "vec3 \<Rightarrow> real" where
  "atom_y p = coord p 1"

text \<open>
  Modelled from the spec: the constructor
  \<^verbatim>\<open>Atoms(symbols=..., scaled_positions=..., cell=[a, b, c], pbc=...)\<close> of the external
  library. A symbols string is read as a sequence of element labels, each an upper-case
  letter with the lower-case letters that follow it (the only string the source passes has
  no counts); three cell lengths give the diagonal lattice matrix; one flag sets the
  periodicity of all three axes; the positions are the fractional coordinates times the
  lattice matrix; a number of labels other than the number of positions is refused.
\<close>

definition is_lower :: "char \<Rightarrow> bool" where
  "is_lower ch = (97 \<le> (of_char ch :: nat) \<and> (of_char ch :: nat) \<le> 122)"

function string2symbols :: "string \<Rightarrow> string list" where
  "string2symbols [] = []"
| "string2symbols (ch # cs) =
     (ch # takeWhile is_lower cs) # string2symbols (dropWhile is_lower cs)"
  by pat_completeness auto
termination
  by (relation "measure length") (auto simp: less_Suc_eq_le length_dropWhile_le)

definition cell_of_lengths :: "vec3 \<Rightarrow> mat3" where
  "cell_of_lengths l = ((coord l 0, 0, 0), (0, coord l 1, 0), (0, 0, coord l 2))"

definition Atoms :: "string \<Rightarrow> vec3 list \<Rightarrow> vec3 \<Rightarrow> bool \<Rightarrow> error + atoms" where
  "Atoms syms scaled_positions lengths periodic =
     (let c = cell_of_lengths lengths; labels = string2symbols syms in
      if length labels \<noteq> length scaled_positions then Inl ValueError
      else Inr \<lparr>symbols = labels,
                positions = map (\<lambda>f. vec_mat f c) scaled_positions,
                cell = c,
                pbc = (periodic, periodic, periodic)\<rparr>)"

section \<open>ceria\_crystallographic\<close>

definition crystallographic_table :: "vec3 list" where
  "crystallographic_table =
     [(0, 0, 0),
      (1 / 2, 1 / 2, 0),
      (1 / 2, 0, 1 / 2),
      (0, 1 / 2, 1 / 2),
      (1 / 4, 1 / 4, 1 / 4),
      (1 / 4, 1 / 4, 3 / 4),
      (1 / 4, 3 / 4, 1 / 4),
      (3 / 4, 1 / 4, 1 / 4),
      (1 / 4, 3 / 4, 3 / 4),
      (3 / 4, 1 / 4, 3 / 4),
      (3 / 4, 3 / 4, 1 / 4),
      (3 / 4, 3 / 4, 3 / 4)]"

definition ceria_crystallographic :: "real \<Rightarrow> error + atoms" where
  "ceria_crystallographic cellparam =
     Atoms ''CeCeCeCeOOOOOOOO'' crystallographic_table
       (cellparam, cellparam, cellparam) True"

section \<open>The external library\<close>

text \<open>
  The routines of the external library that the source calls are parameters of the model:
  the named-prototype bulk constructor, the surface cutter, the supercell tiler
  (\<^verbatim>\<open>slab.repeat\<close>), the molecule constructor, the rigid rotation (\<^verbatim>\<open>water.rotate\<close>),
  the adsorbate placer and the atom sorter. Each may raise; a routine that mutates its
  argument in place returns the new structure.
\<close>

record ase =
  bulk :: "string \<Rightarrow> string \<Rightarrow> real \<Rightarrow> error + atoms"
  surface :: "atoms \<Rightarrow> int \<times> int \<times> int \<Rightarrow> int \<Rightarrow> real \<Rightarrow> error + atoms"
  repeat :: "atoms \<Rightarrow> int \<times> int \<times> int \<Rightarrow> error + atoms"
  molecule :: "string \<Rightarrow> error + atoms"
  rotate_atoms :: "atoms \<Rightarrow> real \<Rightarrow> string \<Rightarrow> error + atoms"
  add_adsorbate :: "atoms \<Rightarrow> atoms \<Rightarrow> real \<Rightarrow> real \<times> real \<Rightarrow> error + atoms"
  sort_atoms :: "atoms \<Rightarrow> error + atoms"

text \<open>
  The calls into the library are the observable effects of the source. A run yields the
  list of library calls made, each with its arguments, in order, and then the value
  returned or the error raised; a raised error ends the run.
\<close>

datatype call =
    Bulk string string real
  | Surface atoms "int \<times> int \<times> int" int real
  | Repeat atoms "int \<times> int \<times> int"
  | Molecule string
  | Rotate atoms real string
  | Add_adsorbate atoms atoms real "real \<times> real"
  | Sort atoms

type_synonym 'a run = "call list \<times> (error + 'a)"

definition ret :: "'a \<Rightarrow> 'a run" where
  "ret x = ([], Inr x)"

definition pure_step :: "error + 'a \<Rightarrow> 'a run" where
  "pure_step r = ([], r)"

definition then_run :: "'a run \<Rightarrow> ('a \<Rightarrow> 'b run) \<Rightarrow> 'b run" where
  "then_run m f =
     (case snd m of
        Inl e \<Rightarrow> (fst m, Inl e)
      | Inr x \<Rightarrow> (fst m @ fst (f x), snd (f x)))"

definition call_bulk :: "ase \<Rightarrow> string \<Rightarrow> string \<Rightarrow> real \<Rightarrow> atoms run" where
  "call_bulk lib name crystalstructure a =
     ([Bulk name crystalstructure a], bulk lib name crystalstructure a)"

definition call_surface :: "ase \<Rightarrow> atoms \<Rightarrow> int \<times> int \<times> int \<Rightarrow> int \<Rightarrow> real \<Rightarrow> atoms run" where
  "call_surface lib lattice indices layers vacuum =
     ([Surface lattice indices layers vacuum], surface lib lattice indices layers vacuum)"

definition call_repeat :: "ase \<Rightarrow> atoms \<Rightarrow> int \<times> int \<times> int \<Rightarrow> atoms run" where
  "call_repeat lib a repetitions = ([Repeat a repetitions], repeat lib a repetitions)"

definition call_molecule :: "ase \<Rightarrow> string \<Rightarrow> atoms run" where
  "call_molecule lib name = ([Molecule name], molecule lib name)"

definition call_rotate :: "ase \<Rightarrow> atoms \<Rightarrow> real \<Rightarrow> string \<Rightarrow> atoms run" where
  "call_rotate lib a angle axis = ([Rotate a angle axis], rotate_atoms lib a angle axis)"

definition call_add_adsorbate ::
  "ase \<Rightarrow> atoms \<Rightarrow> atoms \<Rightarrow> real \<Rightarrow> real \<times> real \<Rightarrow> atoms run" where
  "call_add_adsorbate lib slab adsorbate height position =
     ([Add_adsorbate slab adsorbate height position],
      add_adsorbate lib slab adsorbate height position)"

definition call_sort :: "ase \<Rightarrow> atoms \<Rightarrow> atoms run" where
  "call_sort lib a = ([Sort a], sort_atoms lib a)"

section \<open>ceria\_primitive\<close>

definition ceria_primitive :: "ase \<Rightarrow> real \<Rightarrow> atoms run" where
  "ceria_primitive lib cellparam =
     then_run (call_bulk lib ''CeO2'' ''fluorite'' cellparam) (\<lambda>ceria.
     then_run (pure_step (get_scaled_positions ceria)) (\<lambda>scaled_pos.
     then_run (pure_step (setitem scaled_pos 0 (1 / 2, 1 / 2, 1 / 2))) (\<lambda>scaled_pos'.
       pure_step (set_scaled_positions ceria scaled_pos'))))"

section \<open>slab\<close>

text \<open>
  The adsorption branch of \<^verbatim>\<open>slab\<close>. The arguments of \<^verbatim>\<open>add_adsorbate\<close> are
  evaluated before the call, so the water molecule is built and rotated first, then
  \<^verbatim>\<open>slab[-3]\<close> is read twice (for \<^verbatim>\<open>.x\<close> and for \<^verbatim>\<open>.y\<close>).
\<close>

definition add_water :: "ase \<Rightarrow> atoms \<Rightarrow> atoms run" where
  "add_water lib slab =
     then_run (call_molecule lib ''H2O'') (\<lambda>water0.
     then_run (call_rotate lib water0 80 ''z'') (\<lambda>water1.
     then_run (call_rotate lib water1 (- 60) ''x'') (\<lambda>water2.
     then_run (call_rotate lib water2 50 ''y'') (\<lambda>water3.
     then_run (pure_step (getitem slab (- 3))) (\<lambda>atom_a.
     then_run (pure_step (getitem slab (- 3))) (\<lambda>atom_b.
       call_add_adsorbate lib slab water3 2
         (atom_x atom_a + 6 / 10, atom_y atom_b - 3 / 10)))))))"

text \<open>
  \<^verbatim>\<open>slab(cellparam, vacuum, layers, repetitions, indices, waterspecies)\<close>. The call
  \<^verbatim>\<open>slab.get_chemical_symbols()\<close> before the sort reads the structure and drops the
  result; it has no counterpart here.
\<close>

definition slab ::
  "ase \<Rightarrow> real \<Rightarrow> real \<Rightarrow> int \<Rightarrow> int \<times> int \<times> int \<Rightarrow> int \<times> int \<times> int \<Rightarrow> string \<Rightarrow> atoms run" where
  "slab lib cellparam vacuum layers repetitions indices waterspecies =
     then_run (if indices = (1, 1, 1) then ceria_primitive lib cellparam
               else pure_step (ceria_crystallographic cellparam)) (\<lambda>ceria.
     then_run (call_surface lib ceria indices layers vacuum) (\<lambda>slab0.
     then_run (call_repeat lib slab0 repetitions) (\<lambda>slab1.
     then_run (if waterspecies = ''a'' then add_water lib slab1 else ret slab1) (\<lambda>slab2.
       call_sort lib slab2))))"

text \<open>
  The structure that the first branch of \<^verbatim>\<open>slab\<close> binds to \<^verbatim>\<open>ceria\<close>, on its own.
\<close>

definition bulk_cell :: "ase \<Rightarrow> real \<Rightarrow> int \<times> int \<times> int \<Rightarrow> atoms run" where
  "bulk_cell lib cellparam indices =
     (if indices = (1, 1, 1) then ceria_primitive lib cellparam
      else pure_step (ceria_crystallographic cellparam))"

text \<open>Kinds of library calls, to read them off a run.\<close>

fun is_surface :: "call \<Rightarrow> bool" where
  "is_surface (Surface a i l v) = True"
| "is_surface c = False"

fun is_water_call :: "call \<Rightarrow> bool" where
  "is_water_call (Molecule n) = True"
| "is_water_call (Rotate a angle axis) = True"
| "is_water_call (Add_adsorbate s a h p) = True"
| "is_water_call c = False"

text \<open>
  Modelled from the spec: what the spec's interface section says of the collaborators
  that touch the atom list. The molecule constructor returns the water molecule, one O and
  two H; a rotation is rigid and keeps the atoms; the adsorbate placer appends the
  adsorbate's atoms to the slab; the sorter reorders the atoms.
\<close>

definition library_contract :: "ase \<Rightarrow> bool" where
  "library_contract lib \<longleftrightarrow>
     (\<forall>w. molecule lib ''H2O'' = Inr w \<longrightarrow>
        mset (symbols w) = {#''O'', ''H'', ''H''#} \<and> length (positions w) = 3) \<and>
     (\<forall>a angle axis a'. rotate_atoms lib a angle axis = Inr a' \<longrightarrow>
        symbols a' = symbols a \<and> length (positions a') = length (positions a)) \<and>
     (\<forall>s a h p s'. add_adsorbate lib s a h p = Inr s' \<longrightarrow>
        symbols s' = symbols s @ symbols a \<and>
        length (positions s') = length (positions s) + length (positions a)) \<and>
     (\<forall>a a'. sort_atoms lib a = Inr a' \<longrightarrow>
        mset (symbols a') = mset (symbols a) \<and>
        length (positions a') = length (positions a))"

text \<open>The call with every argument at its default.\<close>

definition slab_default :: "ase \<Rightarrow> atoms run" where
  "slab_default lib = slab lib (5429832 / 1000000) 10 4 (1, 1, 1) (1, 1, 1) ''a''"

section \<open>Concrete inputs\<close>

text \<open>
  A stand-in for the external library, for concrete runs. Its bulk constructor returns
  one CeO2 formula unit (Ce, O, O) on the face-centred primitive lattice, with the oxygens
  at a quarter and three quarters of the cube diagonal; its cutter stacks \<open>layers\<close>
  copies of the atoms of the cell; its tiler makes one copy per repetition (none when a
  count is zero); its molecule constructor knows water (O, H, H); its rotation keeps the
  molecule as it is; its placer appends the adsorbate's atoms, shifted to the lateral
  position and by the height; its sorter returns the structure as it is.
\<close>

definition fluorite_CeO2 :: "real \<Rightarrow> atoms" where
  "fluorite_CeO2 a =
     \<lparr>symbols = [''Ce'', ''O'', ''O''],
      positions = [(0, 0, 0), (a / 4, a / 4, a / 4), (3 * a / 4, 3 * a / 4, 3 * a / 4)],
      cell = ((0, a / 2, a / 2), (a / 2, 0, a / 2), (a / 2, a / 2, 0)),
      pbc = (True, True, True)\<rparr>"

definition water_molecule :: atoms where
  "water_molecule =
     \<lparr>symbols = [''O'', ''H'', ''H''],
      positions = [(0, 0, 119 / 1000), (0, 763 / 1000, - 477 / 1000),
                   (0, - 763 / 1000, - 477 / 1000)],
      cell = ((0, 0, 0), (0, 0, 0), (0, 0, 0)),
      pbc = (False, False, False)\<rparr>"

definition copies :: "nat \<Rightarrow> atoms \<Rightarrow> atoms" where
  "copies n a = a\<lparr>symbols := concat (replicate n (symbols a)),
                   positions := concat (replicate n (positions a))\<rparr>"

definition place :: "atoms \<Rightarrow> atoms \<Rightarrow> real \<Rightarrow> real \<times> real \<Rightarrow> atoms" where
  "place s adsorbate height position =
     s\<lparr>symbols := symbols s @ symbols adsorbate,
       positions := positions s @
         map (\<lambda>p. (coord p 0 + fst position, coord p 1 + snd position, coord p 2 + height))
           (positions adsorbate)\<rparr>"

definition stub_ase :: ase where
  "stub_ase =
     \<lparr>bulk = (\<lambda>name crystalstructure a.
         if name = ''CeO2'' \<and> crystalstructure = ''fluorite'' then Inr (fluorite_CeO2 a)
         else Inl (LibraryError ''bulk'')),
      surface = (\<lambda>lattice indices layers vacuum. Inr (copies (nat layers) lattice)),
      repeat = (\<lambda>a r. Inr (copies (nat (fst r * fst (snd r) * snd (snd r))) a)),
      molecule = (\<lambda>name.
         if name = ''H2O'' then Inr water_molecule else Inl (LibraryError ''molecule'')),
      rotate_atoms = (\<lambda>a angle axis. Inr a),
      add_adsorbate = (\<lambda>s adsorbate height position. Inr (place s adsorbate height position)),
      sort_atoms = (\<lambda>a. Inr a)\<rparr>"

definition primitive_cell_example :: atoms where
  "primitive_cell_example =
     \<lparr>symbols = [''Ce'', ''O'', ''O''],
      positions = [(1 / 2, 1 / 2, 1 / 2), (1 / 4, 1 / 4, 1 / 4), (3 / 4, 3 / 4, 3 / 4)],
      cell = ((0, 1 / 2, 1 / 2), (1 / 2, 0, 1 / 2), (1 / 2, 1 / 2, 0)),
      pbc = (True, True, True)\<rparr>"

definition empty_slab_example :: atoms where
  "empty_slab_example =
     \<lparr>symbols = [],
      positions = [],
      cell = ((0, 1 / 2, 1 / 2), (1 / 2, 0, 1 / 2), (1 / 2, 1 / 2, 0)),
      pbc = (True, True, True)\<rparr>"

text \<open>
  Two small slabs for runs of \<^verbatim>\<open>orthogonalize_111\<close>: a cell whose row 1 has a non-zero first entry, with an
  atom just below the upper face along x, and one with an atom two cell lengths out.
\<close>

definition slab_near_example :: atoms where
  "slab_near_example =
     \<lparr>symbols = [''Ce'', ''O''],
      positions = [(399 / 100, 5 / 2, 1), (1, 1, 1)],
      cell = ((4, 0, 0), (2, 3, 0), (0, 0, 20)),
      pbc = (True, True, False)\<rparr>"

definition slab_near_result :: atoms where
  "slab_near_result =
     \<lparr>symbols = [''Ce'', ''O''],
      positions = [(- 1 / 100, 5 / 2, 1), (1, 1, 1)],
      cell = ((4, 0, 0), (0, 3, 0), (0, 0, 20)),
      pbc = (True, True, False)\<rparr>"

definition slab_far_example :: atoms where
  "slab_far_example =
     \<lparr>symbols = [''Ce''],
      positions = [(8, 1, 1)],
      cell = ((4, 0, 0), (2, 3, 0), (0, 0, 20)),
      pbc = (True, True, False)\<rparr>"

section \<open>Properties of orthogonalize\_111\<close>

lemma upt_3: "[0..<3] = [0, 1, 2]"
  by (simp add: upt_rec numeral_3_eq_3)

lemma wrap_step_update:
  "wrap_step c i d ps =
     ps[i := (if coord (ps ! i) d \<ge> entry c d d - 5 / 100
              then set_coord (ps ! i) d (coord (ps ! i) d - entry c d d) else ps ! i)]"
  by (simp add: wrap_step_def)

lemma wrap_atom_steps:
  "wrap_atom c p =
    (let s = (\<lambda>d q. if coord q d \<ge> entry c d d - 5 / 100
                     then set_coord q d (coord q d - entry c d d) else q)
     in s 2 (s 1 (s 0 p)))"
  by (cases p) (simp add: wrap_atom_def wrap_coord_def)

lemma inner_loop:
  assumes "i < length ps"
  shows "fold (\<lambda>i_dir acc'. wrap_step c i i_dir acc') [0..<3] ps = ps[i := wrap_atom c (ps ! i)]"
  using assms
  by (simp only: upt_3 fold_simps wrap_step_update wrap_atom_steps Let_def
      nth_list_update_eq length_list_update list_update_overwrite)

lemma outer_loop_nth:
  assumes "k \<le> length ps"
  shows "length (fold (\<lambda>i acc. acc[i := g (acc ! i)]) [0..<k] ps) = length ps \<and>
         (\<forall>i<length ps. fold (\<lambda>i acc. acc[i := g (acc ! i)]) [0..<k] ps ! i =
            (if i < k then g (ps ! i) else ps ! i))"
  using assms
proof (induction k)
  case 0
  then show ?case by simp
next
  case (Suc k)
  then show ?case by (auto simp: nth_list_update less_Suc_eq)
qed

lemma outer_loop_inner:
  assumes "k \<le> length ps"
  shows "fold (\<lambda>i_pos acc. fold (\<lambda>i_dir acc'. wrap_step c i_pos i_dir acc') [0..<3] acc)
           [0..<k] ps
         = fold (\<lambda>i acc. acc[i := wrap_atom c (acc ! i)]) [0..<k] ps"
  using assms
proof (induction k)
  case 0
  then show ?case by simp
next
  case (Suc k)
  then have k: "k < length (fold (\<lambda>i acc. acc[i := wrap_atom c (acc ! i)]) [0..<k] ps)"
    using outer_loop_nth [of k ps "wrap_atom c"] by simp
  from Suc have "fold (\<lambda>i_pos acc. fold (\<lambda>i_dir acc'. wrap_step c i_pos i_dir acc') [0..<3] acc)
           [0..<k] ps
         = fold (\<lambda>i acc. acc[i := wrap_atom c (acc ! i)]) [0..<k] ps"
    by simp
  then show ?case
    using inner_loop [OF k, of c] by simp
qed

lemma wrap_loop_map: "wrap_loop c ps = map (wrap_atom c) ps"
proof -
  have "fold (\<lambda>i acc. acc[i := wrap_atom c (acc ! i)]) [0..<length ps] ps
          = map (wrap_atom c) ps"
  proof (rule nth_equalityI)
    show "length (fold (\<lambda>i acc. acc[i := wrap_atom c (acc ! i)]) [0..<length ps] ps)
            = length (map (wrap_atom c) ps)"
      using outer_loop_nth [of "length ps" ps "wrap_atom c"] by simp
  next
    fix i
    assume "i < length (fold (\<lambda>i acc. acc[i := wrap_atom c (acc ! i)]) [0..<length ps] ps)"
    then have "i < length ps"
      using outer_loop_nth [of "length ps" ps "wrap_atom c"] by simp
    then show "fold (\<lambda>i acc. acc[i := wrap_atom c (acc ! i)]) [0..<length ps] ps ! i
                 = map (wrap_atom c) ps ! i"
      using outer_loop_nth [of "length ps" ps "wrap_atom c"] by simp
  qed
  then show ?thesis
    unfolding wrap_loop_def
    using outer_loop_inner [of "length ps" ps c] by simp
qed

lemma entry_set_entry_10:
  assumes "i < 3" "j < 3"
  shows "entry (set_entry m (Suc 0) 0 v) i j = (if i = Suc 0 \<and> j = 0 then v else entry m i j)"
proof -
  obtain a b c d e f g h k where m: "m = ((a, b, c), (d, e, f), (g, h, k))"
    by (metis prod_cases3)
  show ?thesis using assms by (simp add: m entry_def set_entry_def)
qed

lemma orthogonalize_111_eq:
  "orthogonalize_111 s =
     Inr (s\<lparr>cell := set_entry (cell s) 1 0 0,
               positions := map (wrap_atom (set_entry (cell s) 1 0 0)) (positions s)\<rparr>)"
  by (simp add: orthogonalize_111_def Let_def get_cell_def set_cell_def get_positions_def
      set_positions_def wrap_loop_map)

lemma less_3_cases: "d < (3::nat) \<Longrightarrow> d = 0 \<or> d = 1 \<or> d = 2"
  by arith

lemma coord_wrap_atom:
  assumes "d < 3"
  shows "coord (wrap_atom c p) d = wrap_coord (entry c d d) (coord p d)"
  using less_3_cases [OF assms] by (auto simp: wrap_atom_def)

lemma diag_set_entry_10:
  assumes "d < 3"
  shows "entry (set_entry m (Suc 0) 0 v) d d = entry m d d"
  using assms by (simp add: entry_set_entry_10)

lemma set_entry_10_twice:
  "set_entry (set_entry m (Suc 0) 0 v) (Suc 0) 0 v = set_entry m (Suc 0) 0 v"
proof -
  obtain a b c d e f g h k where m: "m = ((a, b, c), (d, e, f), (g, h, k))"
    by (metis prod_cases3)
  show ?thesis by (simp add: m set_entry_def)
qed

lemma wrap_atom_inside:
  assumes "\<forall>d<3. coord p d < entry c d d - 5 / 100"
  shows "wrap_atom c p = p"
proof -
  obtain x y z where p: "p = (x, y, z)"
    by (metis prod_cases3)
  have "coord p 0 < entry c 0 0 - 5 / 100" "coord p 1 < entry c 1 1 - 5 / 100"
    "coord p 2 < entry c 2 2 - 5 / 100"
    using assms by simp_all
  then show ?thesis by (simp add: p wrap_atom_def wrap_coord_def)
qed

lemma orthogonalize_111_coord:
  assumes "orthogonalize_111 s = Inr out" and "i < length (positions s)" and "d < 3"
  shows "coord (positions out ! i) d
           = wrap_coord (entry (cell s) d d) (coord (positions s ! i) d)"
  using assms by (auto simp: orthogonalize_111_eq coord_wrap_atom diag_set_entry_10)

text \<open>
  Claim C3. \<^verbatim>\<open>orthogonalize_111\<close> returns the structure with the (1,0) entry of the
  lattice matrix set to zero and every other entry, the species and the periodicity flags
  as they were. For every atom \<open>i\<close> and axis \<open>d\<close>, the coordinate is decreased by the
  diagonal lattice length along \<open>d\<close> exactly when it is at or above that length minus 0.05.
  In particular a coordinate \<open>L - 0.01\<close> ends at \<open>-0.01\<close> and a coordinate \<open>L - 0.5\<close>
  is left unchanged.
\<close>

theorem orthogonalize_111_wrap:
  "\<exists>out. orthogonalize_111 s = Inr out
     \<and> entry (cell out) 1 0 = 0
     \<and> (\<forall>i<3. \<forall>j<3. (i, j) \<noteq> (1, 0) \<longrightarrow> entry (cell out) i j = entry (cell s) i j)
     \<and> symbols out = symbols s \<and> pbc out = pbc s
     \<and> length (positions out) = length (positions s)
     \<and> (\<forall>i<length (positions s). \<forall>d<3.
          coord (positions out ! i) d
            = (if coord (positions s ! i) d \<ge> entry (cell s) d d - 5 / 100
               then coord (positions s ! i) d - entry (cell s) d d
               else coord (positions s ! i) d)
          \<and> (coord (positions s ! i) d = entry (cell s) d d - 1 / 100
               \<longrightarrow> coord (positions out ! i) d = - 1 / 100)
          \<and> (coord (positions s ! i) d = entry (cell s) d d - 1 / 2
               \<longrightarrow> coord (positions out ! i) d = entry (cell s) d d - 1 / 2))"
proof -
  define out where "out = s\<lparr>cell := set_entry (cell s) 1 0 0,
     positions := map (wrap_atom (set_entry (cell s) 1 0 0)) (positions s)\<rparr>"
  have r: "orthogonalize_111 s = Inr out"
    by (simp add: orthogonalize_111_eq out_def)
  have c10: "entry (cell out) 1 0 = 0"
    by (simp add: out_def entry_set_entry_10)
  have rest: "\<forall>i<3. \<forall>j<3. (i, j) \<noteq> (1, 0) \<longrightarrow> entry (cell out) i j = entry (cell s) i j"
    by (simp add: out_def entry_set_entry_10)
  have frame: "symbols out = symbols s \<and> pbc out = pbc s
      \<and> length (positions out) = length (positions s)"
    by (simp add: out_def)
  have pos: "\<forall>i<length (positions s). \<forall>d<3.
          coord (positions out ! i) d
            = (if coord (positions s ! i) d \<ge> entry (cell s) d d - 5 / 100
               then coord (positions s ! i) d - entry (cell s) d d
               else coord (positions s ! i) d)
          \<and> (coord (positions s ! i) d = entry (cell s) d d - 1 / 100
               \<longrightarrow> coord (positions out ! i) d = - 1 / 100)
          \<and> (coord (positions s ! i) d = entry (cell s) d d - 1 / 2
               \<longrightarrow> coord (positions out ! i) d = entry (cell s) d d - 1 / 2)"
    using orthogonalize_111_coord [OF r] by (simp add: wrap_coord_def)
  from r c10 rest frame pos show ?thesis by blast
qed

theorem orthogonalize_111_wrap_witness:
  "\<exists>out. orthogonalize_111 slab_near_example = Inr out
     \<and> entry (cell out) 1 0 = 0
     \<and> entry (cell out) 1 1 = 3
     \<and> coord (positions out ! 0) 0 = - 1 / 100
     \<and> coord (positions out ! 0) 1 = 5 / 2"
proof -
  obtain out where out: "orthogonalize_111 slab_near_example = Inr out"
      "entry (cell out) 1 0 = 0"
      "\<forall>i<3. \<forall>j<3. (i, j) \<noteq> (1, 0) \<longrightarrow> entry (cell out) i j = entry (cell slab_near_example) i j"
      "\<forall>i<length (positions slab_near_example). \<forall>d<3.
          coord (positions out ! i) d
            = (if coord (positions slab_near_example ! i) d
                   \<ge> entry (cell slab_near_example) d d - 5 / 100
               then coord (positions slab_near_example ! i) d - entry (cell slab_near_example) d d
               else coord (positions slab_near_example ! i) d)
          \<and> (coord (positions slab_near_example ! i) d = entry (cell slab_near_example) d d - 1 / 100
               \<longrightarrow> coord (positions out ! i) d = - 1 / 100)
          \<and> (coord (positions slab_near_example ! i) d = entry (cell slab_near_example) d d - 1 / 2
               \<longrightarrow> coord (positions out ! i) d = entry (cell slab_near_example) d d - 1 / 2)"
    using orthogonalize_111_wrap [of slab_near_example] by blast
  have "entry (cell out) 1 1 = 3"
    using out(3) by (simp add: slab_near_example_def entry_def)
  moreover have "coord (positions out ! 0) 0 = - 1 / 100"
    using out(4) by (simp add: slab_near_example_def entry_def)
  moreover have "coord (positions out ! 0) 1 = 5 / 2"
    using out(4) by (simp add: slab_near_example_def entry_def)
  ultimately show ?thesis using out(1,2) by blast
qed

text \<open>
  Claim C7. After one call the lattice matrix has a zero (1,0) entry, and when every
  coordinate of the output is strictly below the corresponding diagonal length minus 0.05,
  a second call returns the output unchanged: same lattice matrix, same positions.
\<close>

theorem orthogonalize_111_idempotent:
  assumes "orthogonalize_111 s = Inr out"
    and "\<forall>i<length (positions out). \<forall>d<3.
           coord (positions out ! i) d < entry (cell out) d d - 5 / 100"
  shows "entry (cell out) 1 0 = 0 \<and> orthogonalize_111 out = Inr out"
proof -
  have out: "out = s\<lparr>cell := set_entry (cell s) 1 0 0,
     positions := map (wrap_atom (set_entry (cell s) 1 0 0)) (positions s)\<rparr>"
    using assms(1) by (simp add: orthogonalize_111_eq)
  have c: "set_entry (cell out) (Suc 0) 0 0 = cell out"
    by (simp add: out set_entry_10_twice)
  have "map (wrap_atom (cell out)) (positions out) = positions out"
  proof (rule nth_equalityI)
    show "length (map (wrap_atom (cell out)) (positions out)) = length (positions out)"
      by simp
  next
    fix i
    assume "i < length (map (wrap_atom (cell out)) (positions out))"
    then have i: "i < length (positions out)" by simp
    then have "\<forall>d<3. coord (positions out ! i) d < entry (cell out) d d - 5 / 100"
      using assms(2) by blast
    then show "map (wrap_atom (cell out)) (positions out) ! i = positions out ! i"
      using i by (simp add: wrap_atom_inside)
  qed
  then have "orthogonalize_111 out = Inr out"
    by (simp add: orthogonalize_111_eq [of out] c)
  moreover have "entry (cell out) 1 0 = 0"
    by (simp add: out entry_set_entry_10)
  ultimately show ?thesis by simp
qed

theorem orthogonalize_111_idempotent_witness:
  "orthogonalize_111 slab_near_example = Inr slab_near_result
     \<and> entry (cell slab_near_result) 1 0 = 0
     \<and> orthogonalize_111 slab_near_result = Inr slab_near_result"
proof -
  have run: "orthogonalize_111 slab_near_example = Inr slab_near_result"
    by (simp add: orthogonalize_111_eq slab_near_example_def slab_near_result_def
        set_entry_def wrap_atom_def wrap_coord_def entry_def)
  have wrapped: "\<forall>i<length (positions slab_near_result). \<forall>d<3.
           coord (positions slab_near_result ! i) d < entry (cell slab_near_result) d d - 5 / 100"
    by (simp add: slab_near_result_def entry_def less_Suc_eq numeral_2_eq_2 numeral_3_eq_3
        all_conj_distrib)
  show ?thesis
    using orthogonalize_111_idempotent [OF run wrapped] run by simp
qed

text \<open>
  Claim C8. In one call each coordinate is decreased by the diagonal lattice length of
  its axis at most once: the output coordinate is the input coordinate or the input
  coordinate minus that length, and the diagonal length is the same before and after.
  So on an axis of diagonal length \<open>L > 0\<close>, a coordinate at or above \<open>2L - 0.05\<close>
  ends at the input minus \<open>L\<close>, still at or above \<open>L - 0.05\<close>.
\<close>

theorem orthogonalize_111_single_decrement:
  assumes "i < length (positions s)" and "d < 3"
  shows "\<exists>out. orthogonalize_111 s = Inr out
     \<and> entry (cell out) d d = entry (cell s) d d
     \<and> (coord (positions out ! i) d = coord (positions s ! i) d
         \<or> coord (positions out ! i) d = coord (positions s ! i) d - entry (cell s) d d)
     \<and> (0 < entry (cell s) d d
           \<and> coord (positions s ! i) d \<ge> 2 * entry (cell s) d d - 5 / 100
         \<longrightarrow> coord (positions out ! i) d = coord (positions s ! i) d - entry (cell s) d d
           \<and> coord (positions out ! i) d \<ge> entry (cell out) d d - 5 / 100)"
proof -
  define out where "out = s\<lparr>cell := set_entry (cell s) 1 0 0,
     positions := map (wrap_atom (set_entry (cell s) 1 0 0)) (positions s)\<rparr>"
  have r: "orthogonalize_111 s = Inr out"
    by (simp add: orthogonalize_111_eq out_def)
  have diag: "entry (cell out) d d = entry (cell s) d d"
    using assms(2) by (simp add: out_def diag_set_entry_10)
  have co: "coord (positions out ! i) d
           = wrap_coord (entry (cell s) d d) (coord (positions s ! i) d)"
    using orthogonalize_111_coord [OF r assms] .
  have once: "coord (positions out ! i) d = coord (positions s ! i) d
         \<or> coord (positions out ! i) d = coord (positions s ! i) d - entry (cell s) d d"
    by (simp add: co wrap_coord_def)
  have far: "0 < entry (cell s) d d
           \<and> coord (positions s ! i) d \<ge> 2 * entry (cell s) d d - 5 / 100
         \<longrightarrow> coord (positions out ! i) d = coord (positions s ! i) d - entry (cell s) d d
           \<and> coord (positions out ! i) d \<ge> entry (cell out) d d - 5 / 100"
    by (simp add: co diag wrap_coord_def)
  from r diag once far show ?thesis by blast
qed

theorem orthogonalize_111_single_decrement_witness:
  "\<exists>out. orthogonalize_111 slab_far_example = Inr out
     \<and> entry (cell out) 0 0 = 4
     \<and> coord (positions out ! 0) 0 = 4"
proof -
  have i: "0 < length (positions slab_far_example)" and d: "(0::nat) < 3"
    by (simp_all add: slab_far_example_def)
  show ?thesis
    using orthogonalize_111_single_decrement [OF i d]
    by (auto simp: slab_far_example_def entry_def)
qed

section \<open>Properties of the cell builders\<close>

lemma string2symbols_ceria:
  "string2symbols ''CeCeCeCeOOOOOOOO'' =
     [''Ce'', ''Ce'', ''Ce'', ''Ce'', ''O'', ''O'', ''O'', ''O'', ''O'', ''O'', ''O'', ''O'']"
  by (simp add: is_lower_def)

lemma over_det:
  fixes D :: real
  assumes "D \<noteq> 0" and "p * A + q * B + r * C = x * D"
  shows "p * (A / D) + q * (B / D) + r * (C / D) = x"
proof -
  have "p * (A / D) + q * (B / D) + r * (C / D) = (p * A + q * B + r * C) / D"
    by (simp add: add_divide_distrib)
  also have "\<dots> = x" using assms by simp
  finally show ?thesis .
qed

lemma inv3_explicit:
  assumes "D = det3 ((a, b, c), (d, e, f), (g, h, k))"
  shows "inv3 ((a, b, c), (d, e, f), (g, h, k)) =
      (((e * k - f * h) / D, (c * h - b * k) / D, (b * f - c * e) / D),
       ((f * g - d * k) / D, (a * k - c * g) / D, (c * d - a * f) / D),
       ((d * h - e * g) / D, (b * g - a * h) / D, (a * e - b * d) / D))"
  unfolding assms by (simp add: Let_def)

lemma vec_mat_inv:
  assumes "det3 m \<noteq> 0"
  shows "vec_mat (vec_mat v m) (inv3 m) = v"
proof -
  obtain a b c d e f g h k where m: "m = ((a, b, c), (d, e, f), (g, h, k))"
    by (metis prod_cases3)
  obtain x y z where v: "v = (x, y, z)" by (metis prod_cases3)
  define D where "D = det3 ((a, b, c), (d, e, f), (g, h, k))"
  have D0: "D \<noteq> 0" using assms by (simp add: D_def m)
  have Dx: "D = a * (e * k - f * h) - b * (d * k - f * g) + c * (d * h - e * g)"
    by (simp add: D_def)
  have 1: "(x * a + y * d + z * g) * ((e * k - f * h) / D)
         + (x * b + y * e + z * h) * ((f * g - d * k) / D)
         + (x * c + y * f + z * k) * ((d * h - e * g) / D) = x"
    by (rule over_det [OF D0]) (simp add: Dx algebra_simps)
  have 2: "(x * a + y * d + z * g) * ((c * h - b * k) / D)
         + (x * b + y * e + z * h) * ((a * k - c * g) / D)
         + (x * c + y * f + z * k) * ((b * g - a * h) / D) = y"
    by (rule over_det [OF D0]) (simp add: Dx algebra_simps)
  have 3: "(x * a + y * d + z * g) * ((b * f - c * e) / D)
         + (x * b + y * e + z * h) * ((c * d - a * f) / D)
         + (x * c + y * f + z * k) * ((a * e - b * d) / D) = z"
    by (rule over_det [OF D0]) (simp add: Dx algebra_simps)
  show ?thesis
    unfolding m v inv3_explicit [OF D_def] vec_mat.simps using 1 2 3 by simp
qed

lemma wrap_pbc_inside:
  assumes "0 \<le> coord f 0 \<and> coord f 0 < 1" "0 \<le> coord f 1 \<and> coord f 1 < 1"
    "0 \<le> coord f 2 \<and> coord f 2 < 1"
  shows "wrap_pbc flags f = f"
proof -
  obtain x y z where f: "f = (x, y, z)" by (metis prod_cases3)
  obtain px py pz where p: "flags = (px, py, pz)" by (metis prod_cases3)
  show ?thesis using assms by (simp add: f p frac_eq)
qed

lemma scaled_of_Atoms:
  assumes "Atoms syms scaled lengths periodic = Inr a" and "det3 (cell_of_lengths lengths) \<noteq> 0"
  shows "get_scaled_positions a = Inr (map (wrap_pbc (periodic, periodic, periodic)) scaled)"
  using assms
  by (auto simp: Atoms_def Let_def get_scaled_positions_def vec_mat_inv o_def split: if_splits)

text \<open>
  Claim C2. For every \<open>cellparam > 0\<close>, \<^verbatim>\<open>ceria_crystallographic\<close> returns a
  structure of exactly 12 atoms: four labelled Ce and eight labelled O, in this order, at
  the fractional coordinates of the fixed table, in the cubic lattice whose diagonal
  entries are all \<open>cellparam\<close> and whose off-diagonal entries are zero, periodic along
  all three axes.
\<close>

theorem ceria_crystallographic_cell:
  assumes "0 < cellparam"
  shows "\<exists>ceria. ceria_crystallographic cellparam = Inr ceria
     \<and> length (symbols ceria) = 12 \<and> length (positions ceria) = 12
     \<and> symbols ceria =
         [''Ce'', ''Ce'', ''Ce'', ''Ce'', ''O'', ''O'', ''O'', ''O'', ''O'', ''O'', ''O'', ''O'']
     \<and> get_scaled_positions ceria =
         Inr [(0, 0, 0), (1 / 2, 1 / 2, 0), (1 / 2, 0, 1 / 2), (0, 1 / 2, 1 / 2),
              (1 / 4, 1 / 4, 1 / 4), (1 / 4, 1 / 4, 3 / 4), (1 / 4, 3 / 4, 1 / 4),
              (3 / 4, 1 / 4, 1 / 4), (1 / 4, 3 / 4, 3 / 4), (3 / 4, 1 / 4, 3 / 4),
              (3 / 4, 3 / 4, 1 / 4), (3 / 4, 3 / 4, 3 / 4)]
     \<and> cell ceria = ((cellparam, 0, 0), (0, cellparam, 0), (0, 0, cellparam))
     \<and> pbc ceria = (True, True, True)"
proof -
  define ceria where "ceria =
     \<lparr>symbols = string2symbols ''CeCeCeCeOOOOOOOO'',
      positions = map (\<lambda>f. vec_mat f (cell_of_lengths (cellparam, cellparam, cellparam)))
         crystallographic_table,
      cell = cell_of_lengths (cellparam, cellparam, cellparam),
      pbc = (True, True, True)\<rparr>"
  have run: "ceria_crystallographic cellparam = Inr ceria"
    by (simp add: ceria_crystallographic_def Atoms_def Let_def ceria_def
        is_lower_def crystallographic_table_def)
  have det: "det3 (cell_of_lengths (cellparam, cellparam, cellparam)) \<noteq> 0"
    using assms by (simp add: cell_of_lengths_def)
  have sc: "get_scaled_positions ceria = Inr (map (wrap_pbc (True, True, True)) crystallographic_table)"
    using scaled_of_Atoms [OF run [unfolded ceria_crystallographic_def] det] .
  have tab: "map (wrap_pbc (True, True, True)) crystallographic_table =
       [(0, 0, 0), (1 / 2, 1 / 2, 0), (1 / 2, 0, 1 / 2), (0, 1 / 2, 1 / 2),
              (1 / 4, 1 / 4, 1 / 4), (1 / 4, 1 / 4, 3 / 4), (1 / 4, 3 / 4, 1 / 4),
              (3 / 4, 1 / 4, 1 / 4), (1 / 4, 3 / 4, 3 / 4), (3 / 4, 1 / 4, 3 / 4),
              (3 / 4, 3 / 4, 1 / 4), (3 / 4, 3 / 4, 3 / 4)]"
    by (simp add: crystallographic_table_def frac_eq)
  have sy: "symbols ceria =
         [''Ce'', ''Ce'', ''Ce'', ''Ce'', ''O'', ''O'', ''O'', ''O'', ''O'', ''O'', ''O'', ''O'']"
    by (simp add: ceria_def is_lower_def)
  have len: "length (symbols ceria) = 12 \<and> length (positions ceria) = 12"
    by (simp add: sy) (simp add: ceria_def crystallographic_table_def)
  have ce: "cell ceria = ((cellparam, 0, 0), (0, cellparam, 0), (0, 0, cellparam))
     \<and> pbc ceria = (True, True, True)"
    by (simp add: ceria_def cell_of_lengths_def)
  from run len sy sc tab ce show ?thesis by (intro exI [of _ ceria]) simp
qed

theorem ceria_crystallographic_cell_witness:
  "\<exists>ceria. ceria_crystallographic 5 = Inr ceria
     \<and> length (symbols ceria) = 12
     \<and> cell ceria = ((5, 0, 0), (0, 5, 0), (0, 0, 5))
     \<and> positions ceria ! 1 = (5 / 2, 5 / 2, 0)"
proof -
  have pos: "(0::real) < 5" by simp
  obtain ceria where c: "ceria_crystallographic 5 = Inr ceria" "length (symbols ceria) = 12"
     "cell ceria = ((5, 0, 0), (0, 5, 0), (0, 0, 5))"
    using ceria_crystallographic_cell [OF pos] by blast
  have "positions ceria ! 1 = (5 / 2, 5 / 2, 0)"
    using c(1) by (auto simp: ceria_crystallographic_def Atoms_def Let_def
        crystallographic_table_def cell_of_lengths_def split: if_splits)
  with c show ?thesis by blast
qed

lemma vec_inv_mat:
  assumes "det3 m \<noteq> 0"
  shows "vec_mat (vec_mat v (inv3 m)) m = v"
proof -
  obtain a b c d e f g h k where m: "m = ((a, b, c), (d, e, f), (g, h, k))"
    by (metis prod_cases3)
  obtain x y z where v: "v = (x, y, z)" by (metis prod_cases3)
  define D where "D = det3 ((a, b, c), (d, e, f), (g, h, k))"
  have D0: "D \<noteq> 0" using assms by (simp add: D_def m)
  have Dx: "D = a * (e * k - f * h) - b * (d * k - f * g) + c * (d * h - e * g)"
    by (simp add: D_def)
  have fin: "\<And>N w. N = w * D \<Longrightarrow> N / D = w" using D0 by simp
  have 1: "(x * ((e * k - f * h) / D) + y * ((f * g - d * k) / D) + z * ((d * h - e * g) / D)) * a
         + (x * ((c * h - b * k) / D) + y * ((a * k - c * g) / D) + z * ((b * g - a * h) / D)) * d
         + (x * ((b * f - c * e) / D) + y * ((c * d - a * f) / D) + z * ((a * e - b * d) / D)) * g = x"
    apply (simp only: times_divide_eq_left times_divide_eq_right add_divide_distrib [symmetric])
    apply (rule fin)
    apply (simp add: Dx algebra_simps)
    done
  have 2: "(x * ((e * k - f * h) / D) + y * ((f * g - d * k) / D) + z * ((d * h - e * g) / D)) * b
         + (x * ((c * h - b * k) / D) + y * ((a * k - c * g) / D) + z * ((b * g - a * h) / D)) * e
         + (x * ((b * f - c * e) / D) + y * ((c * d - a * f) / D) + z * ((a * e - b * d) / D)) * h = y"
    apply (simp only: times_divide_eq_left times_divide_eq_right add_divide_distrib [symmetric])
    apply (rule fin)
    apply (simp add: Dx algebra_simps)
    done
  have 3: "(x * ((e * k - f * h) / D) + y * ((f * g - d * k) / D) + z * ((d * h - e * g) / D)) * c
         + (x * ((c * h - b * k) / D) + y * ((a * k - c * g) / D) + z * ((b * g - a * h) / D)) * f
         + (x * ((b * f - c * e) / D) + y * ((c * d - a * f) / D) + z * ((a * e - b * d) / D)) * k = z"
    apply (simp only: times_divide_eq_left times_divide_eq_right add_divide_distrib [symmetric])
    apply (rule fin)
    apply (simp add: Dx algebra_simps)
    done
  show ?thesis
    unfolding m v inv3_explicit [OF D_def] vec_mat.simps using 1 2 3 by simp
qed

lemma then_run_call:
  "then_run ([c], Inr x) f = (c # fst (f x), snd (f x))"
  "then_run ([c], Inl e) f = ([c], Inl e)"
  "then_run ([], Inr x) f = f x"
  "then_run ([], Inl e) f = ([], Inl e)"
  by (simp_all add: then_run_def)

lemma wrap_pbc_half: "wrap_pbc flags (1 / 2, 1 / 2, 1 / 2) = (1 / 2, 1 / 2, 1 / 2)"
  by (rule wrap_pbc_inside) simp_all

lemma ceria_primitive_eq:
  assumes "bulk lib ''CeO2'' ''fluorite'' cellparam = Inr b"
    and "det3 (cell b) \<noteq> 0" and "positions b \<noteq> []"
  shows "ceria_primitive lib cellparam =
     ([Bulk ''CeO2'' ''fluorite'' cellparam],
      Inr (b\<lparr>positions :=
         map (\<lambda>f. vec_mat f (cell b))
           ((map (\<lambda>p. wrap_pbc (pbc b) (vec_mat p (inv3 (cell b)))) (positions b))
              [0 := (1 / 2, 1 / 2, 1 / 2)])\<rparr>))"
  using assms
  by (simp add: ceria_primitive_def call_bulk_def pure_step_def then_run_call
      get_scaled_positions_def setitem_def set_scaled_positions_def set_positions_def)

lemma wrap_pbc_idem: "wrap_pbc flags (wrap_pbc flags v) = wrap_pbc flags v"
proof -
  obtain x y z where v: "v = (x, y, z)" by (metis prod_cases3)
  obtain px py pz where p: "flags = (px, py, pz)" by (metis prod_cases3)
  show ?thesis by (simp add: v p)
qed

text \<open>
  Claim C1, as the code has it. Whenever the external bulk constructor returns a structure
  with an invertible lattice matrix and at least one atom, \<^verbatim>\<open>ceria_primitive\<close>
  makes that one library call and returns a structure with exactly as many atoms as the
  constructor produced, with the same species, lattice matrix and periodicity flags. Its
  fractional coordinates are those of the constructor's structure with the entry of atom 0
  replaced by exactly (0.5, 0.5, 0.5); no other entry is changed, and every other atom
  that lies inside the cell along the periodic axes keeps its Cartesian position. The code
  fixes no atom count of its own.
\<close>

theorem ceria_primitive_cell:
  assumes "bulk lib ''CeO2'' ''fluorite'' cellparam = Inr b"
    and "det3 (cell b) \<noteq> 0" and "positions b \<noteq> []"
  shows "\<exists>ceria sb. ceria_primitive lib cellparam = ([Bulk ''CeO2'' ''fluorite'' cellparam], Inr ceria)
     \<and> length (positions ceria) = length (positions b)
     \<and> symbols ceria = symbols b \<and> cell ceria = cell b \<and> pbc ceria = pbc b
     \<and> get_scaled_positions b = Inr sb
     \<and> get_scaled_positions ceria = Inr (sb[0 := (1 / 2, 1 / 2, 1 / 2)])
     \<and> sb[0 := (1 / 2, 1 / 2, 1 / 2)] ! 0 = (1 / 2, 1 / 2, 1 / 2)
     \<and> (\<forall>i. 0 < i \<and> i < length (positions b) \<and> inside_cell b (positions b ! i)
            \<longrightarrow> positions ceria ! i = positions b ! i)"
proof -
  define sb where "sb = map (\<lambda>p. wrap_pbc (pbc b) (vec_mat p (inv3 (cell b)))) (positions b)"
  define ceria where "ceria = b\<lparr>positions := map (\<lambda>f. vec_mat f (cell b)) (sb[0 := (1 / 2, 1 / 2, 1 / 2)])\<rparr>"
  have run: "ceria_primitive lib cellparam = ([Bulk ''CeO2'' ''fluorite'' cellparam], Inr ceria)"
    using ceria_primitive_eq [OF assms] by (simp add: ceria_def sb_def)
  have n: "0 < length sb" using assms(3) by (simp add: sb_def)
  have frame: "length (positions ceria) = length (positions b)
     \<and> symbols ceria = symbols b \<and> cell ceria = cell b \<and> pbc ceria = pbc b"
    by (simp add: ceria_def sb_def)
  have sb: "get_scaled_positions b = Inr sb"
    using assms(2) by (simp add: get_scaled_positions_def sb_def)
  have "map (\<lambda>p. wrap_pbc (pbc b) (vec_mat p (inv3 (cell b)))) (positions ceria)
          = map (wrap_pbc (pbc b)) (sb[0 := (1 / 2, 1 / 2, 1 / 2)])"
    by (simp add: ceria_def o_def vec_mat_inv [OF assms(2)])
  also have "\<dots> = (map (wrap_pbc (pbc b)) sb)[0 := wrap_pbc (pbc b) (1 / 2, 1 / 2, 1 / 2)]"
    by (simp add: map_update)
  also have "map (wrap_pbc (pbc b)) sb = sb"
    by (simp add: sb_def o_def wrap_pbc_idem)
  finally have "map (\<lambda>p. wrap_pbc (pbc b) (vec_mat p (inv3 (cell b)))) (positions ceria)
          = sb[0 := (1 / 2, 1 / 2, 1 / 2)]"
    by (simp only: wrap_pbc_half)
  then have sp: "get_scaled_positions ceria = Inr (sb[0 := (1 / 2, 1 / 2, 1 / 2)])"
    using assms(2) by (simp add: get_scaled_positions_def ceria_def)
  have sp0: "sb[0 := (1 / 2, 1 / 2, 1 / 2)] ! 0 = (1 / 2, 1 / 2, 1 / 2)"
    using n by simp
  have others: "\<forall>i. 0 < i \<and> i < length (positions b) \<and> inside_cell b (positions b ! i)
            \<longrightarrow> positions ceria ! i = positions b ! i"
  proof (intro allI impI)
    fix i
    assume h: "0 < i \<and> i < length (positions b) \<and> inside_cell b (positions b ! i)"
    then have "positions ceria ! i = vec_mat (sb ! i) (cell b)"
      by (simp add: ceria_def sb_def)
    also have "sb ! i = vec_mat (positions b ! i) (inv3 (cell b))"
      using h by (simp add: sb_def inside_cell_def)
    finally show "positions ceria ! i = positions b ! i"
      by (simp only: vec_inv_mat [OF assms(2)])
  qed
  from run frame sb sp sp0 others show ?thesis by blast
qed

text \<open>
  The claim's count of exactly 2 atoms fails: for the CeO2 formula unit (Ce, O, O) that the
  source asks the constructor for by name, the result has 3 atoms.
\<close>

theorem ceria_primitive_three_atoms:
  "ceria_primitive stub_ase 1 = ([Bulk ''CeO2'' ''fluorite'' 1], Inr primitive_cell_example)
     \<and> length (symbols primitive_cell_example) = 3
     \<and> length (positions primitive_cell_example) = 3"
  by (simp add: ceria_primitive_def call_bulk_def pure_step_def then_run_call stub_ase_def
      fluorite_CeO2_def primitive_cell_example_def get_scaled_positions_def setitem_def
      set_scaled_positions_def set_positions_def Let_def frac_eq)

theorem ceria_primitive_cell_witness:
  "\<exists>ceria. ceria_primitive stub_ase 1 = ([Bulk ''CeO2'' ''fluorite'' 1], Inr ceria)
     \<and> length (positions ceria) = 3
     \<and> symbols ceria = [''Ce'', ''O'', ''O'']
     \<and> get_scaled_positions (fluorite_CeO2 1)
          = Inr [(0, 0, 0), (1 / 4, 1 / 4, 1 / 4), (3 / 4, 3 / 4, 3 / 4)]
     \<and> get_scaled_positions ceria
          = Inr [(1 / 2, 1 / 2, 1 / 2), (1 / 4, 1 / 4, 1 / 4), (3 / 4, 3 / 4, 3 / 4)]
     \<and> positions ceria ! 1 = (1 / 4, 1 / 4, 1 / 4)"
proof -
  have b: "bulk stub_ase ''CeO2'' ''fluorite'' 1 = Inr (fluorite_CeO2 1)"
    by (simp add: stub_ase_def)
  have d: "det3 (cell (fluorite_CeO2 1)) \<noteq> 0"
    by (simp add: fluorite_CeO2_def)
  have p: "positions (fluorite_CeO2 1) \<noteq> []"
    by (simp add: fluorite_CeO2_def)
  have ins: "inside_cell (fluorite_CeO2 1) (positions (fluorite_CeO2 1) ! 1)"
    by (simp add: inside_cell_def fluorite_CeO2_def Let_def frac_eq)
  have sc: "get_scaled_positions (fluorite_CeO2 1)
          = Inr [(0, 0, 0), (1 / 4, 1 / 4, 1 / 4), (3 / 4, 3 / 4, 3 / 4)]"
    by (simp add: get_scaled_positions_def fluorite_CeO2_def Let_def frac_eq)
  obtain ceria sb where c: "ceria_primitive stub_ase 1 = ([Bulk ''CeO2'' ''fluorite'' 1], Inr ceria)"
    "length (positions ceria) = length (positions (fluorite_CeO2 1))"
    "symbols ceria = symbols (fluorite_CeO2 1)"
    "get_scaled_positions (fluorite_CeO2 1) = Inr sb"
    "get_scaled_positions ceria = Inr (sb[0 := (1 / 2, 1 / 2, 1 / 2)])"
    "\<forall>i. 0 < i \<and> i < length (positions (fluorite_CeO2 1))
        \<and> inside_cell (fluorite_CeO2 1) (positions (fluorite_CeO2 1) ! i)
            \<longrightarrow> positions ceria ! i = positions (fluorite_CeO2 1) ! i"
    using ceria_primitive_cell [OF b d p] by blast
  have "positions ceria ! 1 = positions (fluorite_CeO2 1) ! 1"
    using c(6) ins by (simp add: fluorite_CeO2_def)
  then have "positions ceria ! 1 = (1 / 4, 1 / 4, 1 / 4)"
    by (simp add: fluorite_CeO2_def)
  moreover have "length (positions ceria) = 3" "symbols ceria = [''Ce'', ''O'', ''O'']"
    using c(2,3) by (simp_all add: fluorite_CeO2_def)
  moreover have "get_scaled_positions ceria
          = Inr [(1 / 2, 1 / 2, 1 / 2), (1 / 4, 1 / 4, 1 / 4), (3 / 4, 3 / 4, 3 / 4)]"
  proof -
    from c(4) sc have "sb = [(0, 0, 0), (1 / 4, 1 / 4, 1 / 4), (3 / 4, 3 / 4, 3 / 4)]"
      by simp
    then show ?thesis using c(5) by simp
  qed
  ultimately show ?thesis using c(1) sc by blast
qed

section \<open>Properties of slab\<close>

lemma then_run_ret: "then_run (ret x) f = f x"
  by (simp add: ret_def then_run_def)

lemma getitem_minus3:
  "getitem a (- 3) =
     (if length (positions a) < 3 then Inl IndexError
      else Inr (positions a ! (length (positions a) - 3)))"
proof (cases "length (positions a) < 3")
  case True
  then show ?thesis by (simp add: getitem_def Let_def)
next
  case False
  then have "nat (int (length (positions a)) - 3) = length (positions a) - 3"
    by simp
  with False show ?thesis by (simp add: getitem_def Let_def)
qed

text \<open>The adsorption branch, once the molecule is built and rotated.\<close>

lemma add_water_eq:
  assumes "molecule lib ''H2O'' = Inr w0"
    and "rotate_atoms lib w0 80 ''z'' = Inr w1"
    and "rotate_atoms lib w1 (- 60) ''x'' = Inr w2"
    and "rotate_atoms lib w2 50 ''y'' = Inr w3"
  shows "add_water lib s =
     (if length (positions s) < 3
      then ([Molecule ''H2O'', Rotate w0 80 ''z'', Rotate w1 (- 60) ''x'', Rotate w2 50 ''y''],
            Inl IndexError)
      else ([Molecule ''H2O'', Rotate w0 80 ''z'', Rotate w1 (- 60) ''x'', Rotate w2 50 ''y'',
             Add_adsorbate s w3 2
               (atom_x (positions s ! (length (positions s) - 3)) + 6 / 10,
                atom_y (positions s ! (length (positions s) - 3)) - 3 / 10)],
            add_adsorbate lib s w3 2
               (atom_x (positions s ! (length (positions s) - 3)) + 6 / 10,
                atom_y (positions s ! (length (positions s) - 3)) - 3 / 10)))"
  using assms
  by (simp add: add_water_def call_molecule_def call_rotate_def call_add_adsorbate_def
      pure_step_def then_run_call getitem_minus3)

lemma slab_tiled:
  assumes "bulk_cell lib cellparam indices = (t, Inr ceria)"
    and "surface lib ceria indices layers vacuum = Inr slab0"
    and "repeat lib slab0 repetitions = Inr slab1"
  shows "slab lib cellparam vacuum layers repetitions indices waterspecies =
     (t @ Surface ceria indices layers vacuum # Repeat slab0 repetitions #
        fst (then_run (if waterspecies = ''a'' then add_water lib slab1 else ret slab1)
               (call_sort lib)),
      snd (then_run (if waterspecies = ''a'' then add_water lib slab1 else ret slab1)
               (call_sort lib)))"
  using assms
  by (simp add: slab_def bulk_cell_def then_run_def call_surface_def call_repeat_def)


lemma fst_ceria_primitive:
  "fst (ceria_primitive lib cellparam) = [Bulk ''CeO2'' ''fluorite'' cellparam]"
  by (simp add: ceria_primitive_def call_bulk_def pure_step_def then_run_def split: sum.splits)

lemma fst_bulk_cell_no_surface: "filter is_surface (fst (bulk_cell lib cellparam indices)) = []"
  by (simp add: bulk_cell_def fst_ceria_primitive pure_step_def)

lemma fst_bulk_cell_no_water: "filter is_water_call (fst (bulk_cell lib cellparam indices)) = []"
  by (simp add: bulk_cell_def fst_ceria_primitive pure_step_def)

lemma fst_add_water_no_surface: "filter is_surface (fst (add_water lib s)) = []"
  by (simp add: add_water_def call_molecule_def call_rotate_def call_add_adsorbate_def
      pure_step_def then_run_def split: sum.splits)

lemma slab_bulk_cell:
  "slab lib cellparam vacuum layers repetitions indices waterspecies =
     then_run (bulk_cell lib cellparam indices) (\<lambda>ceria.
     then_run (call_surface lib ceria indices layers vacuum) (\<lambda>slab0.
     then_run (call_repeat lib slab0 repetitions) (\<lambda>slab1.
     then_run (if waterspecies = ''a'' then add_water lib slab1 else ret slab1) (\<lambda>slab2.
       call_sort lib slab2))))"
  by (simp add: slab_def bulk_cell_def)

lemma slab_surface_calls:
  "filter is_surface (fst (slab lib cellparam vacuum layers repetitions indices waterspecies)) =
     (case snd (bulk_cell lib cellparam indices) of
        Inl e \<Rightarrow> []
      | Inr ceria \<Rightarrow> [Surface ceria indices layers vacuum])"
  by (simp add: slab_bulk_cell then_run_def call_surface_def call_repeat_def call_sort_def
      ret_def fst_bulk_cell_no_surface fst_add_water_no_surface split: sum.splits)


text \<open>
  Claim C4, as the code has it. The only call of the surface cutter in a run of \<^verbatim>\<open>slab\<close>
  receives, when \<open>indices\<close> is (1,1,1), the primitive cell built by \<^verbatim>\<open>ceria_primitive\<close>
  (with as many atoms as the external constructor returned), and for every other
  \<open>indices\<close> the 12-atom conventional cell built by \<^verbatim>\<open>ceria_crystallographic\<close>.
\<close>

theorem slab_bulk_selection:
  "(indices = (1, 1, 1) \<longrightarrow>
      (\<forall>b. bulk lib ''CeO2'' ''fluorite'' cellparam = Inr b \<and> det3 (cell b) \<noteq> 0
            \<and> positions b \<noteq> [] \<longrightarrow>
         (\<exists>ceria. snd (ceria_primitive lib cellparam) = Inr ceria
            \<and> length (positions ceria) = length (positions b)
            \<and> symbols ceria = symbols b
            \<and> filter is_surface
                 (fst (slab lib cellparam vacuum layers repetitions indices waterspecies))
               = [Surface ceria indices layers vacuum])))
   \<and> (indices \<noteq> (1, 1, 1) \<and> 0 < cellparam \<longrightarrow>
         (\<exists>ceria. ceria_crystallographic cellparam = Inr ceria
            \<and> length (positions ceria) = 12 \<and> length (symbols ceria) = 12
            \<and> filter is_surface
                 (fst (slab lib cellparam vacuum layers repetitions indices waterspecies))
               = [Surface ceria indices layers vacuum]))"
proof (intro conjI impI allI)
  fix b
  assume i: "indices = (1, 1, 1)"
    and b: "bulk lib ''CeO2'' ''fluorite'' cellparam = Inr b \<and> det3 (cell b) \<noteq> 0
            \<and> positions b \<noteq> []"
  from b obtain ceria where c:
    "ceria_primitive lib cellparam = ([Bulk ''CeO2'' ''fluorite'' cellparam], Inr ceria)"
    "length (positions ceria) = length (positions b)" "symbols ceria = symbols b"
    using ceria_primitive_eq [of lib cellparam b] by simp
  have "filter is_surface
          (fst (slab lib cellparam vacuum layers repetitions indices waterspecies))
        = [Surface ceria indices layers vacuum]"
    by (simp add: slab_surface_calls bulk_cell_def i c(1))
  with c show "\<exists>ceria. snd (ceria_primitive lib cellparam) = Inr ceria
            \<and> length (positions ceria) = length (positions b)
            \<and> symbols ceria = symbols b
            \<and> filter is_surface
                 (fst (slab lib cellparam vacuum layers repetitions indices waterspecies))
               = [Surface ceria indices layers vacuum]"
    by simp
next
  assume h: "indices \<noteq> (1, 1, 1) \<and> 0 < cellparam"
  then obtain ceria where c: "ceria_crystallographic cellparam = Inr ceria"
    "length (positions ceria) = 12" "length (symbols ceria) = 12"
    by (auto simp: ceria_crystallographic_def Atoms_def Let_def is_lower_def
        crystallographic_table_def)
  have "filter is_surface
          (fst (slab lib cellparam vacuum layers repetitions indices waterspecies))
        = [Surface ceria indices layers vacuum]"
    using h by (simp add: slab_surface_calls bulk_cell_def pure_step_def c(1))
  with c show "\<exists>ceria. ceria_crystallographic cellparam = Inr ceria
            \<and> length (positions ceria) = 12 \<and> length (symbols ceria) = 12
            \<and> filter is_surface
                 (fst (slab lib cellparam vacuum layers repetitions indices waterspecies))
               = [Surface ceria indices layers vacuum]"
    by simp
qed


lemma ceria_primitive_stub:
  "ceria_primitive stub_ase 1 = ([Bulk ''CeO2'' ''fluorite'' 1], Inr primitive_cell_example)"
  by (simp add: ceria_primitive_def call_bulk_def pure_step_def then_run_call stub_ase_def
      fluorite_CeO2_def primitive_cell_example_def get_scaled_positions_def setitem_def
      set_scaled_positions_def set_positions_def Let_def frac_eq)

lemma stub_ase_simps:
  "bulk stub_ase ''CeO2'' ''fluorite'' a = Inr (fluorite_CeO2 a)"
  "surface stub_ase lattice indices layers vacuum = Inr (copies (nat layers) lattice)"
  "repeat stub_ase s r = Inr (copies (nat (fst r * fst (snd r) * snd (snd r))) s)"
  "molecule stub_ase ''H2O'' = Inr water_molecule"
  "rotate_atoms stub_ase w angle axis = Inr w"
  "add_adsorbate stub_ase s w h p = Inr (place s w h p)"
  "sort_atoms stub_ase s = Inr s"
  by (simp_all add: stub_ase_def)

lemma library_contract_stub: "library_contract stub_ase"
  by (simp add: library_contract_def stub_ase_def place_def water_molecule_def
      split: if_splits)

text \<open>
  The claim's count of 2 atoms for the cell fed to the cutter fails: with the CeO2 formula
  unit returned by the constructor, the cutter receives 3 atoms.
\<close>

theorem slab_bulk_selection_three_atoms:
  "filter is_surface (fst (slab stub_ase 1 10 4 (1, 1, 1) (1, 1, 1) ''a''))
     = [Surface primitive_cell_example (1, 1, 1) 4 10]
   \<and> length (positions primitive_cell_example) = 3
   \<and> length (symbols primitive_cell_example) = 3"
  by (simp add: slab_surface_calls bulk_cell_def ceria_primitive_stub)
    (simp add: primitive_cell_example_def)

theorem slab_bulk_selection_witness:
  "(\<exists>ceria. snd (ceria_primitive stub_ase 1) = Inr ceria
      \<and> length (positions ceria) = 3
      \<and> filter is_surface (fst (slab stub_ase 1 10 4 (1, 1, 1) (1, 1, 1) ''a''))
          = [Surface ceria (1, 1, 1) 4 10])
   \<and> (\<exists>ceria. ceria_crystallographic 5 = Inr ceria
      \<and> length (positions ceria) = 12
      \<and> filter is_surface (fst (slab stub_ase 5 10 4 (1, 1, 1) (1, 0, 0) ''a''))
          = [Surface ceria (1, 0, 0) 4 10])"
proof -
  have b: "bulk stub_ase ''CeO2'' ''fluorite'' 1 = Inr (fluorite_CeO2 1)
      \<and> det3 (cell (fluorite_CeO2 1)) \<noteq> 0 \<and> positions (fluorite_CeO2 1) \<noteq> []"
    by (simp add: stub_ase_simps) (simp add: fluorite_CeO2_def)
  have n: "length (positions (fluorite_CeO2 1)) = 3"
    by (simp add: fluorite_CeO2_def)
  have other: "(1::int, 0::int, 0::int) \<noteq> (1, 1, 1) \<and> (0::real) < 5"
    by simp
  have "\<exists>ceria. snd (ceria_primitive stub_ase 1) = Inr ceria
      \<and> length (positions ceria) = 3
      \<and> filter is_surface (fst (slab stub_ase 1 10 4 (1, 1, 1) (1, 1, 1) ''a''))
          = [Surface ceria (1, 1, 1) 4 10]"
    using slab_bulk_selection [of "(1, 1, 1)" stub_ase 1 10 4 "(1, 1, 1)" "''a''"] b n
    by fastforce
  moreover have "\<exists>ceria. ceria_crystallographic 5 = Inr ceria
      \<and> length (positions ceria) = 12
      \<and> filter is_surface (fst (slab stub_ase 5 10 4 (1, 1, 1) (1, 0, 0) ''a''))
          = [Surface ceria (1, 0, 0) 4 10]"
    using slab_bulk_selection [of "(1, 0, 0)" stub_ase 5 10 4 "(1, 1, 1)" "''a''"] other
    by fastforce
  ultimately show ?thesis by blast
qed

text \<open>
  Claim C6. For every \<open>waterspecies\<close> other than \<open>'a'\<close>, \<^verbatim>\<open>slab\<close> is the run of the
  pipeline without the adsorption step: bulk cell, surface cut, tiling, sort. The value
  of \<open>waterspecies\<close> does not occur in it, so no error is raised on its account; the run
  is the one of \<open>'n'\<close>, and it makes no call that builds, rotates or places a molecule.
\<close>

theorem slab_no_water_path:
  assumes "waterspecies \<noteq> ''a''"
  shows "slab lib cellparam vacuum layers repetitions indices waterspecies =
       then_run (bulk_cell lib cellparam indices) (\<lambda>ceria.
       then_run (call_surface lib ceria indices layers vacuum) (\<lambda>slab0.
       then_run (call_repeat lib slab0 repetitions) (\<lambda>slab1.
         call_sort lib slab1)))
     \<and> slab lib cellparam vacuum layers repetitions indices waterspecies =
         slab lib cellparam vacuum layers repetitions indices ''n''
     \<and> filter is_water_call
         (fst (slab lib cellparam vacuum layers repetitions indices waterspecies)) = []"
proof -
  have run: "slab lib cellparam vacuum layers repetitions indices waterspecies =
       then_run (bulk_cell lib cellparam indices) (\<lambda>ceria.
       then_run (call_surface lib ceria indices layers vacuum) (\<lambda>slab0.
       then_run (call_repeat lib slab0 repetitions) (\<lambda>slab1.
         call_sort lib slab1)))"
    using assms by (simp add: slab_bulk_cell then_run_ret)
  have n: "slab lib cellparam vacuum layers repetitions indices ''n'' =
       then_run (bulk_cell lib cellparam indices) (\<lambda>ceria.
       then_run (call_surface lib ceria indices layers vacuum) (\<lambda>slab0.
       then_run (call_repeat lib slab0 repetitions) (\<lambda>slab1.
         call_sort lib slab1)))"
    by (simp add: slab_bulk_cell then_run_ret)
  have "filter is_water_call (fst (bulk_cell lib cellparam indices)) = []"
    by (simp add: bulk_cell_def fst_ceria_primitive pure_step_def)
  then have "filter is_water_call
         (fst (slab lib cellparam vacuum layers repetitions indices waterspecies)) = []"
    unfolding run
    by (simp add: then_run_def call_surface_def call_repeat_def call_sort_def
        split: sum.splits)
  with run n show ?thesis by simp
qed

theorem slab_no_water_path_witness:
  "slab stub_ase 1 10 4 (1, 1, 1) (1, 1, 1) ''x'' =
       slab stub_ase 1 10 4 (1, 1, 1) (1, 1, 1) ''n''
   \<and> snd (slab stub_ase 1 10 4 (1, 1, 1) (1, 1, 1) ''x'') = Inr (copies 1 (copies 4 primitive_cell_example))
   \<and> filter is_water_call (fst (slab stub_ase 1 10 4 (1, 1, 1) (1, 1, 1) ''x'')) = []"
proof -
  have x: "''x'' \<noteq> ''a''" by simp
  note t = slab_no_water_path [OF x, of stub_ase 1 10 4 "(1, 1, 1)" "(1, 1, 1)"]
  from t have t1: "slab stub_ase 1 10 4 (1, 1, 1) (1, 1, 1) ''x'' =
      then_run (bulk_cell stub_ase 1 (1, 1, 1)) (\<lambda>ceria.
       then_run (call_surface stub_ase ceria (1, 1, 1) 4 10) (\<lambda>slab0.
       then_run (call_repeat stub_ase slab0 (1, 1, 1)) (\<lambda>slab1.
         call_sort stub_ase slab1)))"
    by blast
  from t have t2: "slab stub_ase 1 10 4 (1, 1, 1) (1, 1, 1) ''x'' =
       slab stub_ase 1 10 4 (1, 1, 1) (1, 1, 1) ''n''"
    by blast
  from t have t3: "filter is_water_call
      (fst (slab stub_ase 1 10 4 (1, 1, 1) (1, 1, 1) ''x'')) = []"
    by blast
  have t4: "snd (slab stub_ase 1 10 4 (1, 1, 1) (1, 1, 1) ''x'')
      = Inr (copies 1 (copies 4 primitive_cell_example))"
    unfolding t1
    by (simp add: bulk_cell_def ceria_primitive_stub then_run_call call_surface_def
        call_repeat_def call_sort_def stub_ase_simps)
  from t2 t4 t3 show ?thesis by (intro conjI)
qed

lemma slab_water_run:
  assumes "bulk_cell lib cellparam indices = (t, Inr ceria)"
    and "surface lib ceria indices layers vacuum = Inr slab0"
    and "repeat lib slab0 repetitions = Inr slab1"
    and "molecule lib ''H2O'' = Inr w0"
    and "rotate_atoms lib w0 80 ''z'' = Inr w1"
    and "rotate_atoms lib w1 (- 60) ''x'' = Inr w2"
    and "rotate_atoms lib w2 50 ''y'' = Inr w3"
  shows "slab lib cellparam vacuum layers repetitions indices ''a'' =
     (if length (positions slab1) < 3
      then (t @ [Surface ceria indices layers vacuum, Repeat slab0 repetitions,
                 Molecule ''H2O'', Rotate w0 80 ''z'', Rotate w1 (- 60) ''x'',
                 Rotate w2 50 ''y''],
            Inl IndexError)
      else (t @ [Surface ceria indices layers vacuum, Repeat slab0 repetitions,
                 Molecule ''H2O'', Rotate w0 80 ''z'', Rotate w1 (- 60) ''x'',
                 Rotate w2 50 ''y'',
                 Add_adsorbate slab1 w3 2
                   (atom_x (positions slab1 ! (length (positions slab1) - 3)) + 6 / 10,
                    atom_y (positions slab1 ! (length (positions slab1) - 3)) - 3 / 10)]
              @ (case add_adsorbate lib slab1 w3 2
                   (atom_x (positions slab1 ! (length (positions slab1) - 3)) + 6 / 10,
                    atom_y (positions slab1 ! (length (positions slab1) - 3)) - 3 / 10) of
                  Inl e \<Rightarrow> [] | Inr slab2 \<Rightarrow> [Sort slab2]),
            case add_adsorbate lib slab1 w3 2
                   (atom_x (positions slab1 ! (length (positions slab1) - 3)) + 6 / 10,
                    atom_y (positions slab1 ! (length (positions slab1) - 3)) - 3 / 10) of
              Inl e \<Rightarrow> Inl e | Inr slab2 \<Rightarrow> sort_atoms lib slab2))"
  unfolding slab_tiled [OF assms(1-3)] add_water_eq [OF assms(4-7)]
  by (simp add: then_run_def call_sort_def split: sum.splits)

text \<open>
  Claim C9, as the code has it. When \<open>waterspecies\<close> is \<open>'a'\<close>, the library calls up
  to the rotations succeed and the tiled slab has at least three atoms, the library calls
  of \<^verbatim>\<open>slab\<close> after the tiling are, in this order: build the molecule \<open>H2O\<close>; rotate
  it by 80 about z; rotate the result by -60 about x; rotate that result by 50 about y;
  place the rotated molecule on the tiled slab at height 2 and lateral position
  (x + 0.6, y - 0.3), where x and y are the in-plane coordinates of the third-from-last
  atom of the tiled slab; then sort. There is no other rotation.
\<close>

theorem slab_water_placement:
  assumes "bulk_cell lib cellparam indices = (t, Inr ceria)"
    and "surface lib ceria indices layers vacuum = Inr slab0"
    and "repeat lib slab0 repetitions = Inr slab1"
    and "molecule lib ''H2O'' = Inr w0"
    and "rotate_atoms lib w0 80 ''z'' = Inr w1"
    and "rotate_atoms lib w1 (- 60) ''x'' = Inr w2"
    and "rotate_atoms lib w2 50 ''y'' = Inr w3"
    and "3 \<le> length (positions slab1)"
    and "anchor = positions slab1 ! (length (positions slab1) - 3)"
    and "placed = add_adsorbate lib slab1 w3 2 (coord anchor 0 + 6 / 10, coord anchor 1 - 3 / 10)"
  shows "fst (slab lib cellparam vacuum layers repetitions indices ''a'') =
       t @ [Surface ceria indices layers vacuum, Repeat slab0 repetitions,
            Molecule ''H2O'', Rotate w0 80 ''z'', Rotate w1 (- 60) ''x'', Rotate w2 50 ''y'',
            Add_adsorbate slab1 w3 2 (coord anchor 0 + 6 / 10, coord anchor 1 - 3 / 10)]
         @ (case placed of Inl e \<Rightarrow> [] | Inr slab2 \<Rightarrow> [Sort slab2])
     \<and> filter is_water_call (fst (slab lib cellparam vacuum layers repetitions indices ''a'')) =
         [Molecule ''H2O'', Rotate w0 80 ''z'', Rotate w1 (- 60) ''x'', Rotate w2 50 ''y'',
          Add_adsorbate slab1 w3 2 (coord anchor 0 + 6 / 10, coord anchor 1 - 3 / 10)]
     \<and> snd (slab lib cellparam vacuum layers repetitions indices ''a'') =
         (case placed of Inl e \<Rightarrow> Inl e | Inr slab2 \<Rightarrow> sort_atoms lib slab2)"
proof -
  have t: "filter is_water_call t = []"
    using fst_bulk_cell_no_water [of lib cellparam indices] by (simp add: assms(1))
  have run: "fst (slab lib cellparam vacuum layers repetitions indices ''a'') =
       t @ [Surface ceria indices layers vacuum, Repeat slab0 repetitions,
            Molecule ''H2O'', Rotate w0 80 ''z'', Rotate w1 (- 60) ''x'', Rotate w2 50 ''y'',
            Add_adsorbate slab1 w3 2 (coord anchor 0 + 6 / 10, coord anchor 1 - 3 / 10)]
         @ (case placed of Inl e \<Rightarrow> [] | Inr slab2 \<Rightarrow> [Sort slab2])"
    using assms(8)
    unfolding slab_water_run [OF assms(1-7)] assms(9,10)
    by (simp add: atom_x_def atom_y_def)
  have res: "snd (slab lib cellparam vacuum layers repetitions indices ''a'') =
         (case placed of Inl e \<Rightarrow> Inl e | Inr slab2 \<Rightarrow> sort_atoms lib slab2)"
    using assms(8)
    unfolding slab_water_run [OF assms(1-7)] assms(9,10)
    by (simp add: atom_x_def atom_y_def)
  have calls: "filter is_water_call
        (fst (slab lib cellparam vacuum layers repetitions indices ''a'')) =
         [Molecule ''H2O'', Rotate w0 80 ''z'', Rotate w1 (- 60) ''x'', Rotate w2 50 ''y'',
          Add_adsorbate slab1 w3 2 (coord anchor 0 + 6 / 10, coord anchor 1 - 3 / 10)]"
    unfolding run by (simp add: t split: sum.splits)
  from run calls res show ?thesis by (intro conjI)
qed

text \<open>
  Claim C10. Once the molecule is built and rotated, \<^verbatim>\<open>slab[-3]\<close> on the tiled slab is
  within bounds if and only if the tiled slab has at least 3 atoms. With at least 3 atoms
  it reads the atom at index \<open>n - 3\<close>, and the run goes on to the placement and the sort:
  the indexing raises nothing. With fewer, the run ends there with \<open>IndexError\<close>, before
  any placement.
\<close>

theorem slab_anchor_in_bounds:
  assumes "bulk_cell lib cellparam indices = (t, Inr ceria)"
    and "surface lib ceria indices layers vacuum = Inr slab0"
    and "repeat lib slab0 repetitions = Inr slab1"
    and "molecule lib ''H2O'' = Inr w0"
    and "rotate_atoms lib w0 80 ''z'' = Inr w1"
    and "rotate_atoms lib w1 (- 60) ''x'' = Inr w2"
    and "rotate_atoms lib w2 50 ''y'' = Inr w3"
    and "n = length (positions slab1)"
  shows "((\<exists>p. getitem slab1 (- 3) = Inr p) \<longleftrightarrow> 3 \<le> n)
     \<and> (getitem slab1 (- 3) = Inl IndexError \<longleftrightarrow> n < 3)
     \<and> (3 \<le> n \<longrightarrow>
          getitem slab1 (- 3) = Inr (positions slab1 ! (n - 3))
          \<and> snd (slab lib cellparam vacuum layers repetitions indices ''a'') =
              (case add_adsorbate lib slab1 w3 2
                      (atom_x (positions slab1 ! (n - 3)) + 6 / 10,
                       atom_y (positions slab1 ! (n - 3)) - 3 / 10) of
                 Inl e \<Rightarrow> Inl e | Inr slab2 \<Rightarrow> sort_atoms lib slab2))
     \<and> (n < 3 \<longrightarrow>
          slab lib cellparam vacuum layers repetitions indices ''a'' =
            (t @ [Surface ceria indices layers vacuum, Repeat slab0 repetitions,
                  Molecule ''H2O'', Rotate w0 80 ''z'', Rotate w1 (- 60) ''x'',
                  Rotate w2 50 ''y''],
             Inl IndexError))"
proof -
  have ex: "(\<exists>p. getitem slab1 (- 3) = Inr p) \<longleftrightarrow> 3 \<le> n"
  proof (cases "length (positions slab1) < 3")
    case True
    then show ?thesis by (simp add: getitem_minus3 assms(8))
  next
    case False
    then have "getitem slab1 (- 3) = Inr (positions slab1 ! (n - 3))"
      by (simp add: getitem_minus3 assms(8))
    then have "\<exists>p. getitem slab1 (- 3) = Inr p" by (rule exI)
    with False show ?thesis by (simp only: assms(8) not_less simp_thms)
  qed
  have err: "getitem slab1 (- 3) = Inl IndexError \<longleftrightarrow> n < 3"
    by (simp add: getitem_minus3 assms(8))
  have ok: "3 \<le> n \<longrightarrow>
          getitem slab1 (- 3) = Inr (positions slab1 ! (n - 3))
          \<and> snd (slab lib cellparam vacuum layers repetitions indices ''a'') =
              (case add_adsorbate lib slab1 w3 2
                      (atom_x (positions slab1 ! (n - 3)) + 6 / 10,
                       atom_y (positions slab1 ! (n - 3)) - 3 / 10) of
                 Inl e \<Rightarrow> Inl e | Inr slab2 \<Rightarrow> sort_atoms lib slab2)"
    by (simp add: slab_water_run [OF assms(1-7)] assms(8) getitem_minus3)
  have bad: "n < 3 \<longrightarrow>
          slab lib cellparam vacuum layers repetitions indices ''a'' =
            (t @ [Surface ceria indices layers vacuum, Repeat slab0 repetitions,
                  Molecule ''H2O'', Rotate w0 80 ''z'', Rotate w1 (- 60) ''x'',
                  Rotate w2 50 ''y''],
             Inl IndexError)"
    by (simp add: slab_water_run [OF assms(1-7)] assms(8))
  from ex err ok bad show ?thesis by (intro conjI)
qed


text \<open>Runs with the stand-in library.\<close>

lemma bulk_cell_stub:
  "bulk_cell stub_ase 1 (1, 1, 1) = ([Bulk ''CeO2'' ''fluorite'' 1], Inr primitive_cell_example)"
  by (simp add: bulk_cell_def ceria_primitive_stub)

lemma tiled_stub:
  "length (positions (copies (Suc 0) (copies 4 primitive_cell_example))) = 12"
  "positions (copies (Suc 0) (copies 4 primitive_cell_example)) ! 9 = (1 / 2, 1 / 2, 1 / 2)"
  "length (positions (copies 0 (copies 4 primitive_cell_example))) = 0"
  "copies 0 (copies 4 primitive_cell_example) = empty_slab_example"
  by (simp_all add: copies_def primitive_cell_example_def empty_slab_example_def
      eval_nat_numeral)

theorem slab_water_placement_witness:
  "fst (slab stub_ase 1 10 4 (1, 1, 1) (1, 1, 1) ''a'') =
     [Bulk ''CeO2'' ''fluorite'' 1,
      Surface primitive_cell_example (1, 1, 1) 4 10,
      Repeat (copies 4 primitive_cell_example) (1, 1, 1),
      Molecule ''H2O'',
      Rotate water_molecule 80 ''z'',
      Rotate water_molecule (- 60) ''x'',
      Rotate water_molecule 50 ''y'',
      Add_adsorbate (copies 1 (copies 4 primitive_cell_example)) water_molecule 2
        (11 / 10, 1 / 5),
      Sort (place (copies 1 (copies 4 primitive_cell_example)) water_molecule 2
        (11 / 10, 1 / 5))]
   \<and> snd (slab stub_ase 1 10 4 (1, 1, 1) (1, 1, 1) ''a'') =
       Inr (place (copies 1 (copies 4 primitive_cell_example)) water_molecule 2
        (11 / 10, 1 / 5))"
proof -
  have s: "surface stub_ase primitive_cell_example (1, 1, 1) 4 10
             = Inr (copies 4 primitive_cell_example)"
    by (simp add: stub_ase_simps)
  have r: "repeat stub_ase (copies 4 primitive_cell_example) (1, 1, 1)
             = Inr (copies 1 (copies 4 primitive_cell_example))"
    by (simp add: stub_ase_simps)
  have m: "molecule stub_ase ''H2O'' = Inr water_molecule"
    by (simp add: stub_ase_simps)
  have r1: "rotate_atoms stub_ase water_molecule 80 ''z'' = Inr water_molecule"
    and r2: "rotate_atoms stub_ase water_molecule (- 60) ''x'' = Inr water_molecule"
    and r3: "rotate_atoms stub_ase water_molecule 50 ''y'' = Inr water_molecule"
    by (simp_all add: stub_ase_simps)
  have n: "3 \<le> length (positions (copies 1 (copies 4 primitive_cell_example)))"
    by (simp add: tiled_stub)
  have a: "(1 / 2, 1 / 2, 1 / 2) = positions (copies 1 (copies 4 primitive_cell_example))
       ! (length (positions (copies 1 (copies 4 primitive_cell_example))) - 3)"
    by (simp add: tiled_stub)
  have p: "Inr (place (copies 1 (copies 4 primitive_cell_example)) water_molecule 2
             (11 / 10, 1 / 5))
        = add_adsorbate stub_ase (copies 1 (copies 4 primitive_cell_example)) water_molecule 2
            (coord (1 / 2, 1 / 2, 1 / 2) 0 + 6 / 10, coord (1 / 2, 1 / 2, 1 / 2) 1 - 3 / 10)"
    by (simp add: stub_ase_simps)
  show ?thesis
    using slab_water_placement [OF bulk_cell_stub s r m r1 r2 r3 n a p]
    by (simp add: stub_ase_simps)
qed

text \<open>
  Without the size condition the claim fails: on a tiled slab of fewer than three atoms
  the molecule is built and rotated three times, and the run ends with \<open>IndexError\<close>
  at \<^verbatim>\<open>slab[-3]\<close>; nothing is placed.
\<close>

theorem slab_water_not_placed:
  "filter is_water_call (fst (slab stub_ase 1 10 4 (0, 1, 1) (1, 1, 1) ''a'')) =
     [Molecule ''H2O'',
      Rotate water_molecule 80 ''z'',
      Rotate water_molecule (- 60) ''x'',
      Rotate water_molecule 50 ''y'']
   \<and> snd (slab stub_ase 1 10 4 (0, 1, 1) (1, 1, 1) ''a'') = Inl IndexError"
proof -
  have s: "surface stub_ase primitive_cell_example (1, 1, 1) 4 10
             = Inr (copies 4 primitive_cell_example)"
    by (simp add: stub_ase_simps)
  have r0: "repeat stub_ase (copies 4 primitive_cell_example) (0, 1, 1)
             = Inr empty_slab_example"
    by (simp add: stub_ase_simps tiled_stub)
  have m: "molecule stub_ase ''H2O'' = Inr water_molecule"
    by (simp add: stub_ase_simps)
  have r1: "rotate_atoms stub_ase water_molecule 80 ''z'' = Inr water_molecule"
    and r2: "rotate_atoms stub_ase water_molecule (- 60) ''x'' = Inr water_molecule"
    and r3: "rotate_atoms stub_ase water_molecule 50 ''y'' = Inr water_molecule"
    by (simp_all add: stub_ase_simps)
  have run: "slab stub_ase 1 10 4 (0, 1, 1) (1, 1, 1) ''a'' =
       ([Bulk ''CeO2'' ''fluorite'' 1,
         Surface primitive_cell_example (1, 1, 1) 4 10,
         Repeat (copies 4 primitive_cell_example) (0, 1, 1),
         Molecule ''H2O'',
         Rotate water_molecule 80 ''z'',
         Rotate water_molecule (- 60) ''x'',
         Rotate water_molecule 50 ''y''],
        Inl IndexError)"
    by (simp add: slab_water_run [OF bulk_cell_stub s r0 m r1 r2 r3] empty_slab_example_def)
  show ?thesis unfolding run by simp
qed

theorem slab_anchor_in_bounds_witness:
  "getitem (copies 1 (copies 4 primitive_cell_example)) (- 3) = Inr (1 / 2, 1 / 2, 1 / 2)
   \<and> getitem empty_slab_example (- 3) = Inl IndexError
   \<and> slab stub_ase 1 10 4 (0, 1, 1) (1, 1, 1) ''a'' =
       ([Bulk ''CeO2'' ''fluorite'' 1,
         Surface primitive_cell_example (1, 1, 1) 4 10,
         Repeat (copies 4 primitive_cell_example) (0, 1, 1),
         Molecule ''H2O'',
         Rotate water_molecule 80 ''z'',
         Rotate water_molecule (- 60) ''x'',
         Rotate water_molecule 50 ''y''],
        Inl IndexError)"
proof -
  have s: "surface stub_ase primitive_cell_example (1, 1, 1) 4 10
             = Inr (copies 4 primitive_cell_example)"
    by (simp add: stub_ase_simps)
  have r: "repeat stub_ase (copies 4 primitive_cell_example) (1, 1, 1)
             = Inr (copies 1 (copies 4 primitive_cell_example))"
    by (simp add: stub_ase_simps)
  have r0: "repeat stub_ase (copies 4 primitive_cell_example) (0, 1, 1)
             = Inr empty_slab_example"
    by (simp add: stub_ase_simps tiled_stub)
  have m: "molecule stub_ase ''H2O'' = Inr water_molecule"
    by (simp add: stub_ase_simps)
  have r1: "rotate_atoms stub_ase water_molecule 80 ''z'' = Inr water_molecule"
    and r2: "rotate_atoms stub_ase water_molecule (- 60) ''x'' = Inr water_molecule"
    and r3: "rotate_atoms stub_ase water_molecule 50 ''y'' = Inr water_molecule"
    by (simp_all add: stub_ase_simps)
  have n12: "12 = length (positions (copies 1 (copies 4 primitive_cell_example)))"
    by (simp add: tiled_stub)
  have n0: "0 = length (positions empty_slab_example)"
    by (simp add: empty_slab_example_def)
  have "getitem (copies 1 (copies 4 primitive_cell_example)) (- 3) = Inr (1 / 2, 1 / 2, 1 / 2)"
    using slab_anchor_in_bounds [OF bulk_cell_stub s r m r1 r2 r3 n12]
    by (simp add: tiled_stub)
  moreover have "getitem empty_slab_example (- 3) = Inl IndexError
   \<and> slab stub_ase 1 10 4 (0, 1, 1) (1, 1, 1) ''a'' =
       ([Bulk ''CeO2'' ''fluorite'' 1,
         Surface primitive_cell_example (1, 1, 1) 4 10,
         Repeat (copies 4 primitive_cell_example) (0, 1, 1),
         Molecule ''H2O'',
         Rotate water_molecule 80 ''z'',
         Rotate water_molecule (- 60) ''x'',
         Rotate water_molecule 50 ''y''],
        Inl IndexError)"
    using slab_anchor_in_bounds [OF bulk_cell_stub s r0 m r1 r2 r3 n0]
    by simp
  ultimately show ?thesis by simp
qed

text \<open>
  Claim C5, as the code has it. Let the library keep its contract, let the calls of the
  run succeed, and let the tiled slab have at least three atoms. Then \<^verbatim>\<open>slab\<close> with
  \<open>'a'\<close> returns a structure with exactly 3 more atoms, one O and two H, than \<^verbatim>\<open>slab\<close>
  with any other \<open>waterspecies\<close>, whose run makes no call that builds, rotates or places a
  molecule.
\<close>

theorem slab_water_adds_three:
  assumes "library_contract lib"
    and "bulk_cell lib cellparam indices = (t, Inr ceria)"
    and "surface lib ceria indices layers vacuum = Inr slab0"
    and "repeat lib slab0 repetitions = Inr slab1"
    and "molecule lib ''H2O'' = Inr w0"
    and "rotate_atoms lib w0 80 ''z'' = Inr w1"
    and "rotate_atoms lib w1 (- 60) ''x'' = Inr w2"
    and "rotate_atoms lib w2 50 ''y'' = Inr w3"
    and "3 \<le> length (positions slab1)"
    and "add_adsorbate lib slab1 w3 2
           (atom_x (positions slab1 ! (length (positions slab1) - 3)) + 6 / 10,
            atom_y (positions slab1 ! (length (positions slab1) - 3)) - 3 / 10) = Inr slab2"
    and "sort_atoms lib slab2 = Inr wet"
    and "sort_atoms lib slab1 = Inr dry"
    and "waterspecies \<noteq> ''a''"
  shows "snd (slab lib cellparam vacuum layers repetitions indices ''a'') = Inr wet
     \<and> snd (slab lib cellparam vacuum layers repetitions indices waterspecies) = Inr dry
     \<and> length (positions wet) = length (positions dry) + 3
     \<and> mset (symbols wet) = mset (symbols dry) + {#''O'', ''H'', ''H''#}
     \<and> filter is_water_call
         (fst (slab lib cellparam vacuum layers repetitions indices waterspecies)) = []"
proof -
  have wet: "snd (slab lib cellparam vacuum layers repetitions indices ''a'') = Inr wet"
    using assms(9,10,11) by (simp add: slab_water_run [OF assms(2-8)])
  have dry: "snd (slab lib cellparam vacuum layers repetitions indices waterspecies) = Inr dry"
    using assms(13)
    by (simp add: slab_tiled [OF assms(2-4)] then_run_ret call_sort_def assms(12))
  have t: "filter is_water_call (fst (bulk_cell lib cellparam indices)) = []"
    by (simp add: bulk_cell_def fst_ceria_primitive pure_step_def)
  have nowater: "filter is_water_call
         (fst (slab lib cellparam vacuum layers repetitions indices waterspecies)) = []"
    using assms(13) t
    by (simp add: slab_tiled [OF assms(2-4)] then_run_ret call_sort_def assms(2))
  have w0: "mset (symbols w0) = {#''O'', ''H'', ''H''#}" "length (positions w0) = 3"
    using assms(1,5) by (simp_all add: library_contract_def)
  have w1: "symbols w1 = symbols w0" "length (positions w1) = length (positions w0)"
    using assms(1,6) unfolding library_contract_def by blast+
  have w2: "symbols w2 = symbols w1" "length (positions w2) = length (positions w1)"
    using assms(1,7) unfolding library_contract_def by blast+
  have w3: "symbols w3 = symbols w2" "length (positions w3) = length (positions w2)"
    using assms(1,8) unfolding library_contract_def by blast+
  have s2: "symbols slab2 = symbols slab1 @ symbols w3"
    "length (positions slab2) = length (positions slab1) + length (positions w3)"
    using assms(1,10) unfolding library_contract_def by blast+
  have sw: "mset (symbols wet) = mset (symbols slab2)"
    "length (positions wet) = length (positions slab2)"
    using assms(1,11) unfolding library_contract_def by blast+
  have sd: "mset (symbols dry) = mset (symbols slab1)"
    "length (positions dry) = length (positions slab1)"
    using assms(1,12) unfolding library_contract_def by blast+
  have len: "length (positions wet) = length (positions dry) + 3"
    by (simp add: sw sd s2 w3 w2 w1 w0)
  have ms: "mset (symbols wet) = mset (symbols dry) + {#''O'', ''H'', ''H''#}"
    by (simp add: sw sd s2 w3 w2 w1 w0)
  from wet dry len ms nowater show ?thesis by (intro conjI)
qed

text \<open>
  The claim fails for a tiled slab of fewer than three atoms: with a zero repetition
  count the call with \<open>'n'\<close> returns the empty structure and the call with \<open>'a'\<close> raises.
\<close>

theorem slab_water_small_slab:
  "snd (slab stub_ase 1 10 4 (0, 1, 1) (1, 1, 1) ''a'') = Inl IndexError
   \<and> snd (slab stub_ase 1 10 4 (0, 1, 1) (1, 1, 1) ''n'') = Inr empty_slab_example"
proof -
  have s: "surface stub_ase primitive_cell_example (1, 1, 1) 4 10
             = Inr (copies 4 primitive_cell_example)"
    by (simp add: stub_ase_simps)
  have r0: "repeat stub_ase (copies 4 primitive_cell_example) (0, 1, 1)
             = Inr empty_slab_example"
    by (simp add: stub_ase_simps tiled_stub)
  have m: "molecule stub_ase ''H2O'' = Inr water_molecule"
    by (simp add: stub_ase_simps)
  have r1: "rotate_atoms stub_ase water_molecule 80 ''z'' = Inr water_molecule"
    and r2: "rotate_atoms stub_ase water_molecule (- 60) ''x'' = Inr water_molecule"
    and r3: "rotate_atoms stub_ase water_molecule 50 ''y'' = Inr water_molecule"
    by (simp_all add: stub_ase_simps)
  have "snd (slab stub_ase 1 10 4 (0, 1, 1) (1, 1, 1) ''a'') = Inl IndexError"
    by (simp add: slab_water_run [OF bulk_cell_stub s r0 m r1 r2 r3] empty_slab_example_def)
  moreover have "snd (slab stub_ase 1 10 4 (0, 1, 1) (1, 1, 1) ''n'') = Inr empty_slab_example"
    by (simp add: slab_tiled [OF bulk_cell_stub s r0] then_run_ret call_sort_def stub_ase_simps)
  ultimately show ?thesis by simp
qed

theorem slab_water_adds_three_witness:
  "snd (slab stub_ase 1 10 4 (1, 1, 1) (1, 1, 1) ''a'') =
      Inr (place (copies 1 (copies 4 primitive_cell_example)) water_molecule 2 (11 / 10, 1 / 5))
   \<and> snd (slab stub_ase 1 10 4 (1, 1, 1) (1, 1, 1) ''n'') =
      Inr (copies 1 (copies 4 primitive_cell_example))
   \<and> length (positions (place (copies 1 (copies 4 primitive_cell_example)) water_molecule 2
        (11 / 10, 1 / 5))) = 15
   \<and> length (positions (copies 1 (copies 4 primitive_cell_example))) = 12"
proof -
  have s: "surface stub_ase primitive_cell_example (1, 1, 1) 4 10
             = Inr (copies 4 primitive_cell_example)"
    by (simp add: stub_ase_simps)
  have r: "repeat stub_ase (copies 4 primitive_cell_example) (1, 1, 1)
             = Inr (copies 1 (copies 4 primitive_cell_example))"
    by (simp add: stub_ase_simps)
  have m: "molecule stub_ase ''H2O'' = Inr water_molecule"
    by (simp add: stub_ase_simps)
  have r1: "rotate_atoms stub_ase water_molecule 80 ''z'' = Inr water_molecule"
    and r2: "rotate_atoms stub_ase water_molecule (- 60) ''x'' = Inr water_molecule"
    and r3: "rotate_atoms stub_ase water_molecule 50 ''y'' = Inr water_molecule"
    by (simp_all add: stub_ase_simps)
  have n: "3 \<le> length (positions (copies 1 (copies 4 primitive_cell_example)))"
    by (simp add: tiled_stub)
  have p: "add_adsorbate stub_ase (copies 1 (copies 4 primitive_cell_example)) water_molecule 2
       (atom_x (positions (copies 1 (copies 4 primitive_cell_example))
            ! (length (positions (copies 1 (copies 4 primitive_cell_example))) - 3)) + 6 / 10,
        atom_y (positions (copies 1 (copies 4 primitive_cell_example))
            ! (length (positions (copies 1 (copies 4 primitive_cell_example))) - 3)) - 3 / 10)
      = Inr (place (copies 1 (copies 4 primitive_cell_example)) water_molecule 2
           (11 / 10, 1 / 5))"
    by (simp add: stub_ase_simps tiled_stub atom_x_def atom_y_def)
  have sw: "sort_atoms stub_ase (place (copies 1 (copies 4 primitive_cell_example))
        water_molecule 2 (11 / 10, 1 / 5))
      = Inr (place (copies 1 (copies 4 primitive_cell_example)) water_molecule 2
           (11 / 10, 1 / 5))"
    by (simp add: stub_ase_simps)
  have sd: "sort_atoms stub_ase (copies 1 (copies 4 primitive_cell_example))
      = Inr (copies 1 (copies 4 primitive_cell_example))"
    by (simp add: stub_ase_simps)
  have x: "''n'' \<noteq> ''a''" by simp
  show ?thesis
    using slab_water_adds_three [OF library_contract_stub bulk_cell_stub s r m r1 r2 r3 n p
        sw sd x]
    by (simp add: tiled_stub)
qed

end
